theory Spec2Isabelle
  imports Complex_Main "HOL-Library.Multiset"
begin

section \<open>Data model of the analysis pipeline (server.js)\<close>

text \<open>
  The pipeline of \<^verbatim>\<open>app.post('/analyze')\<close> fetches pages of search items, cuts the
  normalised videos into batches of ten, sends every batch to the text-generation
  endpoint, and merges the per-batch analyses with \<^verbatim>\<open>combineAnalyses\<close>.

  JavaScript objects with a fixed set of keys are records. A property that the code
  guards with \<^verbatim>\<open>||\<close> or that the remote service may leave out is an \<open>option\<close>:
  \<open>None\<close> is \<^verbatim>\<open>undefined\<close>. A thrown exception is the \<open>Inl\<close> of a sum and carries
  the exception's \<^verbatim>\<open>message\<close>, the only part of it the handlers read.
\<close>

type_synonym exn = string

datatype json =
    JNull
  | JBool bool
  | JNum int
  | JStr string
  | JArr "json list"
  | JObj "(string \<times> json) list"

text \<open>
  The \<^verbatim>\<open>risk\<close> of a ranked entry is whatever the reply holds: a string, or \<open>None\<close> when
  the property is missing or is no string. Nothing checks it. The three strings that
  are keys of the \<^verbatim>\<open>riskPriority\<close> table, the risk levels of the data model, have
  names.
\<close>

abbreviation High :: "string option" where
  "High \<equiv> Some ''High''"

abbreviation Medium :: "string option" where
  "Medium \<equiv> Some ''Medium''"

abbreviation Low :: "string option" where
  "Low \<equiv> Some ''Low''"

record VideoMetadata =
  videoId :: "string option"
  title :: "string option"
  description :: "string option"
  channelTitle :: "string option"
  channelId :: "string option"
  publishedAt :: "string option"
  thumbnails :: "json option"
  publishTime :: "string option"

record RiskEntry =
  entry_videoId :: "string option"
  entry_title :: "string option"
  channel :: "string option"
  entry_publishedAt :: "string option"
  risk :: "string option"
  rationale :: "string list"

text \<open>
  One element of \<^verbatim>\<open>allAnalyses\<close>, read through the keys the merge reads. The last two
  fields are the ones only the failure placeholder sets. The entries of \<^verbatim>\<open>ranked_list\<close>
  are objects; a list that holds \<^verbatim>\<open>null\<close> in place of an entry is not modelled.
\<close>

record BatchAnalysis =
  summary :: "string option"
  ranked_list :: "RiskEntry list option"
  top_priority :: "string list option"
  checklist :: "string list option"
  next_actions :: "string list option"
  disclaimer :: "string option"
  batch_failed :: bool
  batch_number :: "nat option"

text \<open>
  What \<^verbatim>\<open>JSON.parse\<close> hands back for a batch. Reading a property of \<^verbatim>\<open>null\<close> raises a
  TypeError; every other value is read property by property (a missing one is
  \<^verbatim>\<open>undefined\<close>).
\<close>

datatype parsed = ParsedNull | ParsedObject BatchAnalysis

record FinalAnalysis =
  final_summary :: string
  final_ranked_list :: "RiskEntry list"
  final_top_priority :: "string list"
  final_checklist :: "string list"
  final_next_actions :: "string list"
  final_disclaimer :: string
  batch_count :: nat
  failed_batches :: nat

section \<open>JavaScript built-ins used by the merge\<close>

text \<open>Template-literal rendering of a non-negative integer.\<close>

definition digit_char :: "nat \<Rightarrow> char" where
  "digit_char d = ''0123456789'' ! d"

fun show_nat :: "nat \<Rightarrow> string" where
  "show_nat n = (if n < 10 then [digit_char n] else show_nat (n div 10) @ [digit_char (n mod 10)])"

declare show_nat.simps [simp del]

text \<open>\<^verbatim>\<open>v || []\<close> for an array-valued property: an array is truthy even when empty.\<close>

definition or_empty :: "'a list option \<Rightarrow> 'a list" where
  "or_empty v = (case v of None \<Rightarrow> [] | Some xs \<Rightarrow> xs)"

text \<open>\<^verbatim>\<open>v || d\<close> for a string-valued property: \<^verbatim>\<open>undefined\<close> and the empty string are falsy.\<close>

definition or_default :: "string option \<Rightarrow> string \<Rightarrow> string" where
  "or_default v d = (case v of None \<Rightarrow> d | Some s \<Rightarrow> if s = [] then d else s)"

text \<open>
  \<^verbatim>\<open>analyses.flatMap(f)\<close> where the callback reads a property of the element and so may
  throw; the first exception ends the traversal.
\<close>

fun flatMap :: "('a \<Rightarrow> exn + 'b list) \<Rightarrow> 'a list \<Rightarrow> exn + 'b list" where
  "flatMap f [] = Inr []"
| "flatMap f (x # xs) =
     (case f x of
        Inl e \<Rightarrow> Inl e
      | Inr ys \<Rightarrow> (case flatMap f xs of Inl e \<Rightarrow> Inl e | Inr zs \<Rightarrow> Inr (ys @ zs)))"

text \<open>
  \<^verbatim>\<open>[...new Set(xs)]\<close>: a Set keeps its elements in insertion order and ignores the
  insertion of a value it already holds.
\<close>

definition Set_add :: "'a list \<Rightarrow> 'a \<Rightarrow> 'a list" where
  "Set_add s x = (if x \<in> set s then s else s @ [x])"

definition Set_spread :: "'a list \<Rightarrow> 'a list" where
  "Set_spread xs = foldl Set_add [] xs"

text \<open>\<^verbatim>\<open>xs.slice(from, to)\<close> for indices \<open>0 \<le> from \<le> to\<close>; the end is clipped to the length.\<close>

definition slice :: "nat \<Rightarrow> nat \<Rightarrow> 'a list \<Rightarrow> 'a list" where
  "slice from to xs = take (to - from) (drop from xs)"

text \<open>
  \<^verbatim>\<open>xs.sort(cmp)\<close>. A comparator result is a number or \<^verbatim>\<open>NaN\<close>, here \<open>None\<close>; the
  sort reads \<^verbatim>\<open>NaN\<close> as zero. ECMAScript (since the 2019 edition) requires the sort to
  be stable: an element goes before another when the comparator is negative, after it
  when positive, and the two keep their input order when it is zero. For a consistent
  comparator that fixes the result, which this insertion sort computes. For a
  comparator that is not consistent, as one with \<^verbatim>\<open>NaN\<close> results, the order is left to
  the implementation, and the insertion sort stands for one implementation. In the
  example of the merge below every comparison of neighbours is \<^verbatim>\<open>NaN\<close>, whichever way
  round it is made: the insertion sort leaves such an array as it is, and so does V8,
  whose sort takes the array for a single run that is in order already.
\<close>

definition SortCompare :: "('a \<Rightarrow> 'a \<Rightarrow> int option) \<Rightarrow> 'a \<Rightarrow> 'a \<Rightarrow> int" where
  "SortCompare cmp x y = (case cmp x y of None \<Rightarrow> 0 | Some v \<Rightarrow> v)"

fun sort_insert :: "('a \<Rightarrow> 'a \<Rightarrow> int option) \<Rightarrow> 'a \<Rightarrow> 'a list \<Rightarrow> 'a list" where
  "sort_insert cmp x [] = [x]"
| "sort_insert cmp x (y # ys) =
     (if SortCompare cmp x y \<le> 0 then x # y # ys else y # sort_insert cmp x ys)"

definition Array_sort :: "('a \<Rightarrow> 'a \<Rightarrow> int option) \<Rightarrow> 'a list \<Rightarrow> 'a list" where
  "Array_sort cmp xs = foldr (sort_insert cmp) xs []"

section \<open>combineAnalyses\<close>

definition TypeError_null :: "string \<Rightarrow> exn" where
  "TypeError_null prop = ''Cannot read properties of null (reading '' @ [CHR 39] @ prop @ [CHR 39] @ '')''"

fun read_ranked_list :: "parsed \<Rightarrow> exn + RiskEntry list" where
  "read_ranked_list ParsedNull = Inl (TypeError_null ''ranked_list'')"
| "read_ranked_list (ParsedObject a) = Inr (or_empty (ranked_list a))"

fun read_top_priority :: "parsed \<Rightarrow> exn + string list" where
  "read_top_priority ParsedNull = Inl (TypeError_null ''top_priority'')"
| "read_top_priority (ParsedObject a) = Inr (or_empty (top_priority a))"

text \<open>
  \<^verbatim>\<open>analyses.filter(a => a.batch_failed)\<close> and its negation. They run after the two
  \<^verbatim>\<open>flatMap\<close>s, which have read a property of every element, so no element is
  \<^verbatim>\<open>null\<close> here; the equation for \<^verbatim>\<open>null\<close> is never reached.
\<close>

fun objects :: "parsed list \<Rightarrow> BatchAnalysis list" where
  "objects [] = []"
| "objects (ParsedNull # ps) = objects ps"
| "objects (ParsedObject a # ps) = a # objects ps"

text \<open>
  \<^verbatim>\<open>riskPriority[r]\<close> as a number: the table has three keys, and for anything else the
  lookup yields no number (\<^verbatim>\<open>undefined\<close>, or a member of \<^verbatim>\<open>Object.prototype\<close>).
\<close>

definition riskPriority :: "string option \<Rightarrow> int option" where
  "riskPriority r =
     (if r = High then Some 3 else if r = Medium then Some 2 else if r = Low then Some 1 else None)"

text \<open>The comparator of the sort; a difference with a side that is no number is \<^verbatim>\<open>NaN\<close>.\<close>

definition by_risk :: "RiskEntry \<Rightarrow> RiskEntry \<Rightarrow> int option" where
  "by_risk a b =
     (case (riskPriority (risk b), riskPriority (risk a)) of
        (Some p, Some q) \<Rightarrow> Some (p - q)
      | _ \<Rightarrow> None)"

definition default_disclaimer :: string where
  "default_disclaimer =
     ''This is an automated risk-assessment, not legal advice; consult counsel before taking legal action.''"

definition combined_summary :: "nat \<Rightarrow> nat \<Rightarrow> string" where
  "combined_summary totalHighRisk totalMediumRisk =
     ''We found '' @ show_nat (totalHighRisk + totalMediumRisk)
       @ '' Movies with Possible infringement. ''
       @ (if totalHighRisk > 0
          then ''Immediate attention recommended for high-risk content.''
          else ''No immediate high-risk concerns detected.'')"

definition combineAnalyses :: "parsed list \<Rightarrow> nat \<Rightarrow> exn + FinalAnalysis" where
  "combineAnalyses analyses totalVideos =
     (case flatMap read_ranked_list analyses of
        Inl e \<Rightarrow> Inl e
      | Inr allRankedLists \<Rightarrow>
     (case flatMap read_top_priority analyses of
        Inl e \<Rightarrow> Inl e
      | Inr allTopPriority \<Rightarrow>
          let uniqueTopPriority = slice 0 10 (Set_spread allTopPriority);
              successfulAnalyses = filter (\<lambda>a. \<not> batch_failed a) (objects analyses);
              first = (case successfulAnalyses of [] \<Rightarrow> None | a # _ \<Rightarrow> Some a);
              checklist' = or_empty (Option.bind first checklist);
              next_actions' = or_empty (Option.bind first next_actions);
              disclaimer' = or_default (Option.bind first disclaimer) default_disclaimer;
              totalHighRisk = length (filter (\<lambda>item. risk item = High) allRankedLists);
              totalMediumRisk = length (filter (\<lambda>item. risk item = Medium) allRankedLists);
              failedBatches = length (filter batch_failed (objects analyses));
              summary' = combined_summary totalHighRisk totalMediumRisk;
              sortedRankedList = Array_sort by_risk allRankedLists
          in Inr \<lparr> final_summary = summary',
                   final_ranked_list = sortedRankedList,
                   final_top_priority = uniqueTopPriority,
                   final_checklist = checklist',
                   final_next_actions = next_actions',
                   final_disclaimer = disclaimer',
                   batch_count = length analyses,
                   failed_batches = failedBatches \<rparr>))"


section \<open>The search stage\<close>

text \<open>
  A raw item of the search response. The sub-objects \<^verbatim>\<open>id\<close> and \<^verbatim>\<open>snippet\<close> and each of
  their properties may be missing.
\<close>

record raw_id =
  id_videoId :: "string option"

record raw_snippet =
  snippet_title :: "string option"
  snippet_description :: "string option"
  snippet_channelTitle :: "string option"
  snippet_channelId :: "string option"
  snippet_publishedAt :: "string option"
  snippet_thumbnails :: "json option"
  snippet_publishTime :: "string option"

record raw_item =
  item_id :: "raw_id option"
  item_snippet :: "raw_snippet option"

record page =
  items :: "raw_item list option"
  page_nextPageToken :: "string option"

text \<open>Everything the handler does to the outside world, in order.\<close>

datatype event =
    PageRequest int "string option"
  | Sleep nat
  | Dispatch nat "VideoMetadata list" nat

definition TypeError_undefined :: "string \<Rightarrow> exn" where
  "TypeError_undefined prop =
     ''Cannot read properties of undefined (reading '' @ [CHR 39] @ prop @ [CHR 39] @ '')''"

text \<open>\<^verbatim>\<open>!v\<close> for a string-valued property: \<^verbatim>\<open>undefined\<close> and the empty string are falsy.\<close>

definition falsy :: "string option \<Rightarrow> bool" where
  "falsy v = (v = None \<or> v = Some [])"

text \<open>
  The callback of \<^verbatim>\<open>searchResponse.data.items.map\<close>. The object literal reads
  \<^verbatim>\<open>item.id.videoId\<close> first and the properties of \<^verbatim>\<open>item.snippet\<close> after it; reading a
  property of a missing sub-object raises a TypeError.
\<close>

definition normalize :: "raw_item \<Rightarrow> exn + VideoMetadata" where
  "normalize item =
     (case item_id item of
        None \<Rightarrow> Inl (TypeError_undefined ''videoId'')
      | Some i \<Rightarrow>
     (case item_snippet item of
        None \<Rightarrow> Inl (TypeError_undefined ''title'')
      | Some sn \<Rightarrow>
          Inr \<lparr> videoId = id_videoId i,
                title = snippet_title sn,
                description = snippet_description sn,
                channelTitle = snippet_channelTitle sn,
                channelId = snippet_channelId sn,
                publishedAt = snippet_publishedAt sn,
                thumbnails = snippet_thumbnails sn,
                publishTime = snippet_publishTime sn \<rparr>))"

text \<open>\<^verbatim>\<open>xs.map(f)\<close> for a callback that may throw: the first exception ends the traversal.\<close>

fun map_exn :: "('a \<Rightarrow> exn + 'b) \<Rightarrow> 'a list \<Rightarrow> exn + 'b list" where
  "map_exn f [] = Inr []"
| "map_exn f (x # xs) =
     (case f x of
        Inl e \<Rightarrow> Inl e
      | Inr y \<Rightarrow> (case map_exn f xs of Inl e \<Rightarrow> Inl e | Inr ys \<Rightarrow> Inr (y # ys)))"

definition normalize_page :: "page \<Rightarrow> exn + VideoMetadata list" where
  "normalize_page pg =
     (case items pg of
        None \<Rightarrow> Inl (TypeError_undefined ''map'')
      | Some its \<Rightarrow> map_exn normalize its)"

record fetch_state =
  allSearchResults :: "VideoMetadata list"
  nextPageToken :: "string option"
  pageCount :: nat
  fetch_events :: "event list"

datatype fetch_end = Completed | Threw exn | Awaiting

definition targetResults :: nat where
  "targetResults = 100"

definition maxResultsPerPage :: int where
  "maxResultsPerPage = 50"

text \<open>
  The \<^verbatim>\<open>do ... while\<close> loop of the search stage. The remote endpoint is the list of
  what its successive calls return: \<open>Inl\<close> when \<^verbatim>\<open>axios.get\<close> throws, \<open>Inr\<close> the
  \<^verbatim>\<open>data\<close> of the response. The loop has no bound of its own (empty pages that carry a
  token keep it going), so a list that ends while a request is out leaves the loop
  \<open>Awaiting\<close> its answer.

  The head of the loop body: the page count goes up and the request goes out.
\<close>

definition request_page :: "fetch_state \<Rightarrow> fetch_state" where
  "request_page st =
     st \<lparr> pageCount := pageCount st + 1,
          fetch_events := fetch_events st @
            [PageRequest (min maxResultsPerPage (int targetResults - int (length (allSearchResults st))))
               (nextPageToken st)] \<rparr>"

text \<open>
  The loop from the moment a request is out. When the \<^verbatim>\<open>break\<close> is not taken the
  \<^verbatim>\<open>while\<close> condition is its negation and holds, so after the pause the next request
  goes out.
\<close>

fun await_page :: "(exn + page) list \<Rightarrow> fetch_state \<Rightarrow> fetch_state \<times> fetch_end" where
  "await_page [] st = (st, Awaiting)"
| "await_page (r # rs) st =
     (case r of
        Inl e \<Rightarrow> (st, Threw e)
      | Inr pg \<Rightarrow>
     (case normalize_page pg of
        Inl e \<Rightarrow> (st, Threw e)
      | Inr pageResults \<Rightarrow>
          (let st2 = st \<lparr> allSearchResults := allSearchResults st @ pageResults,
                           nextPageToken := page_nextPageToken pg \<rparr>
           in if length (allSearchResults st2) \<ge> targetResults \<or> falsy (nextPageToken st2)
              then (st2, Completed)
              else await_page rs
                     (request_page (st2 \<lparr> fetch_events := fetch_events st2 @ [Sleep 500] \<rparr>)))))"

definition fetch_pages :: "(exn + page) list \<Rightarrow> fetch_state \<Rightarrow> fetch_state \<times> fetch_end" where
  "fetch_pages rs st = await_page rs (request_page st)"

section \<open>The batch stage\<close>

record FailedBatch =
  failed_batchNumber :: nat
  failed_error :: string
  failed_videosInBatch :: nat

text \<open>
  \<^verbatim>\<open>analyzeBatch\<close>. The first parameter stands for the call of
  \<^verbatim>\<open>openai.chat.completions.create\<close> on the prompt built from the batch, its number
  and the number of batches, together with the read of
  \<^verbatim>\<open>completion.choices[0].message.content\<close>: \<open>Inl\<close> when either throws, else the
  content, \<open>None\<close> for a \<^verbatim>\<open>null\<close> content. The second stands for \<^verbatim>\<open>JSON.parse\<close>, which
  is applied to the content as it is (a \<^verbatim>\<open>null\<close> argument is first turned into the text
  \<^verbatim>\<open>null\<close>); its \<open>Inl\<close> is the SyntaxError, and nothing follows a failed parse.
\<close>

definition analyzeBatch ::
  "(VideoMetadata list \<Rightarrow> nat \<Rightarrow> nat \<Rightarrow> exn + string option) \<Rightarrow> (string \<Rightarrow> exn + 'j) \<Rightarrow>
   VideoMetadata list \<Rightarrow> nat \<Rightarrow> nat \<Rightarrow> exn + 'j" where
  "analyzeBatch create JSON_parse batchResults batchNumber totalBatches =
     (case create batchResults batchNumber totalBatches of
        Inl e \<Rightarrow> Inl e
      | Inr content \<Rightarrow> JSON_parse (case content of None \<Rightarrow> ''null'' | Some text \<Rightarrow> text))"

definition batchSize :: nat where
  "batchSize = 10"

text \<open>
  \<^verbatim>\<open>Math.ceil(allSearchResults.length / batchSize)\<close>. The quotient of two array lengths
  is far from the range where a double would round it across an integer, so the result
  is the ceiling of the exact quotient.
\<close>

definition totalBatches_of :: "nat \<Rightarrow> nat" where
  "totalBatches_of n = nat \<lceil>real n / real batchSize\<rceil>"

record batch_state =
  allAnalyses :: "parsed list"
  failedBatches :: "FailedBatch list"
  batch_events :: "event list"

definition failure_placeholder :: "nat \<Rightarrow> BatchAnalysis" where
  "failure_placeholder n =
     \<lparr> summary = Some (''Analysis failed for batch '' @ show_nat n),
       ranked_list = Some [],
       top_priority = Some [],
       checklist = Some [],
       next_actions = Some [],
       disclaimer = Some ''Analysis incomplete due to API error'',
       batch_failed = True,
       batch_number = Some n \<rparr>"

text \<open>One pass through the body of the \<^verbatim>\<open>for\<close> loop, at index \<open>i\<close>.\<close>

definition batch_step ::
  "(VideoMetadata list \<Rightarrow> nat \<Rightarrow> nat \<Rightarrow> exn + string option) \<Rightarrow> (string \<Rightarrow> exn + parsed) \<Rightarrow>
   VideoMetadata list \<Rightarrow> nat \<Rightarrow> nat \<Rightarrow> batch_state \<Rightarrow> batch_state" where
  "batch_step create JSON_parse allResults totalBatches i st =
     (let batchNumber = i div batchSize + 1;
          batch = slice i (i + batchSize) allResults;
          st1 = st \<lparr> batch_events := batch_events st @ [Dispatch batchNumber batch totalBatches] \<rparr>
      in case analyzeBatch create JSON_parse batch batchNumber totalBatches of
           Inr batchAnalysis \<Rightarrow>
             (let st2 = st1 \<lparr> allAnalyses := allAnalyses st1 @ [batchAnalysis] \<rparr>
              in if i + batchSize < length allResults
                 then st2 \<lparr> batch_events := batch_events st2 @ [Sleep 1000] \<rparr>
                 else st2)
         | Inl message \<Rightarrow>
             st1 \<lparr> failedBatches := failedBatches st1 @
                      [\<lparr> failed_batchNumber = batchNumber, failed_error = message,
                         failed_videosInBatch = length batch \<rparr>],
                    allAnalyses := allAnalyses st1 @ [ParsedObject (failure_placeholder batchNumber)] \<rparr>)"

function batch_loop ::
  "(VideoMetadata list \<Rightarrow> nat \<Rightarrow> nat \<Rightarrow> exn + string option) \<Rightarrow> (string \<Rightarrow> exn + parsed) \<Rightarrow>
   VideoMetadata list \<Rightarrow> nat \<Rightarrow> nat \<Rightarrow> batch_state \<Rightarrow> batch_state" where
  "batch_loop create JSON_parse allResults totalBatches i st =
     (if i < length allResults
      then batch_loop create JSON_parse allResults totalBatches (i + batchSize)
             (batch_step create JSON_parse allResults totalBatches i st)
      else st)"
  by pat_completeness auto
termination
  by (relation "measure (\<lambda>(create, JSON_parse, allResults, totalBatches, i, st). length allResults - i)")
     (auto simp: batchSize_def)

declare batch_loop.simps [simp del]

text \<open>The batches handed to \<^verbatim>\<open>analyzeBatch\<close>, with their ordinals, in the order of the calls.\<close>

fun dispatched :: "event list \<Rightarrow> (nat \<times> VideoMetadata list) list" where
  "dispatched [] = []"
| "dispatched (Dispatch n b t # es) = (n, b) # dispatched es"
| "dispatched (PageRequest m tok # es) = dispatched es"
| "dispatched (Sleep ms # es) = dispatched es"

text \<open>The number of passes the \<^verbatim>\<open>for\<close> loop still makes from index \<open>i\<close> over \<open>n\<close> videos.\<close>

definition batches_left :: "nat \<Rightarrow> nat \<Rightarrow> nat" where
  "batches_left n i = (n - i + (batchSize - 1)) div batchSize"

definition initial_batch_state :: "event list \<Rightarrow> batch_state" where
  "initial_batch_state es = \<lparr> allAnalyses = [], failedBatches = [], batch_events = es \<rparr>"

section \<open>The request handler\<close>

record Report =
  userName :: string
  query :: string
  totalVideosFound :: nat
  batchesAnalyzed :: nat
  batchesFailed :: nat
  failedBatchDetails :: "FailedBatch list"
  searchResults :: "VideoMetadata list"
  analysis :: FinalAnalysis

text \<open>
  The argument of \<^verbatim>\<open>res.json\<close>: an error object, an error object with details, the
  report of the pipeline, or what \<^verbatim>\<open>generateMockResults\<close> built.
\<close>

datatype body =
    ErrorBody string
  | ErrorDetailsBody string string
  | ReportBody Report
  | MockBody json

record http_response =
  status :: nat
  body :: body

text \<open>
  One run of the handler: the response it sent (\<open>None\<close> while it still waits for the
  search endpoint) and what it did to the outside world, in order.
\<close>

record run =
  sent :: "http_response option"
  effects :: "event list"

record request =
  body_userName :: "string option"
  body_channelName :: "string option"

text \<open>
  What the handler finds around it: the two keys of the environment, the answers of
  the search endpoint call by call, the text-generation call and \<^verbatim>\<open>JSON.parse\<close> (see
  \<open>analyzeBatch\<close>), the readings of \<^verbatim>\<open>Date.now()\<close> call by call, and
  \<^verbatim>\<open>Date.prototype.toISOString\<close>.
\<close>

record world =
  YOUTUBE_API_KEY :: "string option"
  OPENAI_API_KEY :: "string option"
  axios_get :: "(exn + page) list"
  completions_create :: "VideoMetadata list \<Rightarrow> nat \<Rightarrow> nat \<Rightarrow> exn + string option"
  parse_JSON :: "string \<Rightarrow> exn + parsed"
  Date_now :: "nat \<Rightarrow> int"
  toISOString :: "int \<Rightarrow> string"

subsection \<open>generateMockResults\<close>

text \<open>\<^verbatim>\<open>JSON.stringify\<close> leaves out a property whose value is \<^verbatim>\<open>undefined\<close>.\<close>

definition opt_field :: "string \<Rightarrow> ('a \<Rightarrow> json) \<Rightarrow> 'a option \<Rightarrow> (string \<times> json) list" where
  "opt_field k enc v = (case v of None \<Rightarrow> [] | Some x \<Rightarrow> [(k, enc x)])"

definition VideoMetadata_json :: "VideoMetadata \<Rightarrow> json" where
  "VideoMetadata_json v =
     JObj (opt_field ''videoId'' JStr (videoId v)
         @ opt_field ''title'' JStr (title v)
         @ opt_field ''description'' JStr (description v)
         @ opt_field ''channelTitle'' JStr (channelTitle v)
         @ opt_field ''channelId'' JStr (channelId v)
         @ opt_field ''publishedAt'' JStr (publishedAt v)
         @ opt_field ''thumbnails'' (\<lambda>j. j) (thumbnails v)
         @ opt_field ''publishTime'' JStr (publishTime v))"

definition RiskEntry_json :: "RiskEntry \<Rightarrow> json" where
  "RiskEntry_json e =
     JObj (opt_field ''videoId'' JStr (entry_videoId e)
         @ opt_field ''title'' JStr (entry_title e)
         @ opt_field ''channel'' JStr (channel e)
         @ opt_field ''publishedAt'' JStr (entry_publishedAt e)
         @ opt_field ''risk'' JStr (risk e)
         @ [(''rationale'', JArr (map JStr (rationale e)))])"

text \<open>The object of one pass of the loop \<^verbatim>\<open>for (let i = 1; i <= 100; i++)\<close>.\<close>

definition mock_searchResult ::
  "(nat \<Rightarrow> int) \<Rightarrow> (int \<Rightarrow> string) \<Rightarrow> string \<Rightarrow> string \<Rightarrow> nat \<Rightarrow> VideoMetadata" where
  "mock_searchResult now toISO userName' channelName' i =
     \<lparr> videoId = Some (''mock_video_'' @ show_nat i),
       title = Some (userName' @ '' - '' @ channelName' @ '' Content '' @ show_nat i),
       description =
         Some (''This is a description for '' @ userName' @ '' '' @ channelName' @ '' video '' @ show_nat i),
       channelTitle = Some (if i mod 5 = 0 then channelName' else ''Other Channel '' @ show_nat i),
       channelId = Some (''channel_'' @ show_nat i),
       publishedAt = Some (toISO (now (2 * (i - 1)) - int i * 86400000)),
       thumbnails =
         Some (JObj [(''default'',
           JObj [(''url'', JStr (''https://via.placeholder.com/120x90.png?text=Thumbnail+'' @ show_nat i)),
                 (''width'', JNum 120),
                 (''height'', JNum 90)])]),
       publishTime = Some (toISO (now (2 * (i - 1) + 1) - int i * 86400000)) \<rparr>"

text \<open>The callback of \<^verbatim>\<open>searchResults.slice(0, 20).map((result, index) => ...)\<close>.\<close>

definition mock_ranked :: "nat \<times> VideoMetadata \<Rightarrow> RiskEntry" where
  "mock_ranked p =
     (case p of (index, result) \<Rightarrow>
       \<lparr> entry_videoId = videoId result,
         entry_title = title result,
         channel = channelTitle result,
         entry_publishedAt = publishedAt result,
         risk = (if index < 5 then High else if index < 10 then Medium else Low),
         rationale =
           [if index < 5 then ''Exact title match with original content'' else ''Possible infringement'',
            if index < 5 then ''Uploaded by unauthorized channel'' else ''Requires manual verification''] \<rparr>)"

definition generateMockResults ::
  "(nat \<Rightarrow> int) \<Rightarrow> (int \<Rightarrow> string) \<Rightarrow> string \<Rightarrow> string \<Rightarrow> json" where
  "generateMockResults now toISO userName' channelName' =
     (let results = map (mock_searchResult now toISO userName' channelName') [1 ..< 101];
          first20 = slice 0 20 results;
          analysis' = JObj
            [(''summary'', JStr (''Based on the search results for '' @ [CHR 34] @ userName' @ '' ''
                @ channelName' @ [CHR 34]
                @ '', we analyzed 100 videos across 10 batches. Found 15 high-risk, 25 medium-risk, and 60 low-risk videos. Immediate attention recommended for high-risk content.'')),
             (''ranked_list'', JArr (map (\<lambda>p. RiskEntry_json (mock_ranked p)) (zip [0 ..< length first20] first20))),
             (''top_priority'', JArr (map JStr
                [''mock_video_1'', ''mock_video_2'', ''mock_video_3'', ''mock_video_4'', ''mock_video_5''])),
             (''checklist'', JArr (map JStr
                [''Open video and compare audio/duration'',
                 ''Check description for rights statement'',
                 ''Check channel About page'',
                 ''Screenshot evidence'',
                 ''Check YouTube Content ID/claims if visible''])),
             (''next_actions'', JArr (map JStr
                [''Contact rights owner'',
                 ''Use YouTube Studio -> Copyright -> Submit takedown (if owner)'',
                 ''Send polite removal request to uploader (template)''])),
             (''disclaimer'', JStr default_disclaimer),
             (''batch_count'', JNum 10)]
      in JObj
           [(''userName'', JStr userName'),
            (''query'', JStr channelName'),
            (''totalVideosFound'', JNum 100),
            (''batchesAnalyzed'', JNum 10),
            (''searchResults'', JArr (map VideoMetadata_json results)),
            (''analysis'', analysis')])"

subsection \<open>The response of the pipeline as JSON\<close>

definition FinalAnalysis_json :: "FinalAnalysis \<Rightarrow> json" where
  "FinalAnalysis_json fa =
     JObj [(''summary'', JStr (final_summary fa)),
           (''ranked_list'', JArr (map RiskEntry_json (final_ranked_list fa))),
           (''top_priority'', JArr (map JStr (final_top_priority fa))),
           (''checklist'', JArr (map JStr (final_checklist fa))),
           (''next_actions'', JArr (map JStr (final_next_actions fa))),
           (''disclaimer'', JStr (final_disclaimer fa)),
           (''batch_count'', JNum (int (batch_count fa))),
           (''failed_batches'', JNum (int (failed_batches fa)))]"

definition FailedBatch_json :: "FailedBatch \<Rightarrow> json" where
  "FailedBatch_json f =
     JObj [(''batchNumber'', JNum (int (failed_batchNumber f))),
           (''error'', JStr (failed_error f)),
           (''videosInBatch'', JNum (int (failed_videosInBatch f)))]"

definition Report_json :: "Report \<Rightarrow> json" where
  "Report_json r =
     JObj [(''userName'', JStr (userName r)),
           (''query'', JStr (query r)),
           (''totalVideosFound'', JNum (int (totalVideosFound r))),
           (''batchesAnalyzed'', JNum (int (batchesAnalyzed r))),
           (''batchesFailed'', JNum (int (batchesFailed r))),
           (''failedBatchDetails'', JArr (map FailedBatch_json (failedBatchDetails r))),
           (''searchResults'', JArr (map VideoMetadata_json (searchResults r))),
           (''analysis'', FinalAnalysis_json (analysis r))]"

fun body_json :: "body \<Rightarrow> json" where
  "body_json (ErrorBody e) = JObj [(''error'', JStr e)]"
| "body_json (ErrorDetailsBody e d) = JObj [(''error'', JStr e), (''details'', JStr d)]"
| "body_json (ReportBody r) = Report_json r"
| "body_json (MockBody j) = j"

fun object_keys :: "json \<Rightarrow> string list" where
  "object_keys (JObj kvs) = map fst kvs"
| "object_keys _ = []"

fun member :: "string \<Rightarrow> json \<Rightarrow> json option" where
  "member k (JObj kvs) = map_of kvs k"
| "member k _ = None"

subsection \<open>app.post('/analyze')\<close>

definition initial_fetch_state :: fetch_state where
  "initial_fetch_state =
     \<lparr> allSearchResults = [], nextPageToken = None, pageCount = 0, fetch_events = [] \<rparr>"

definition respond :: "nat \<Rightarrow> body \<Rightarrow> event list \<Rightarrow> run" where
  "respond code b es = \<lparr> sent = Some \<lparr> status = code, body = b \<rparr>, effects = es \<rparr>"

text \<open>The handler once both names of the request body are known to be truthy.\<close>

definition pipeline :: "world \<Rightarrow> string \<Rightarrow> string \<Rightarrow> run" where
  "pipeline w userName' channelName' =
     (if falsy (YOUTUBE_API_KEY w) \<or> falsy (OPENAI_API_KEY w)
      then respond 200 (MockBody (generateMockResults (Date_now w) (toISOString w) userName' channelName')) []
      else
        (case fetch_pages (axios_get w) initial_fetch_state of
           (st, Awaiting) \<Rightarrow> \<lparr> sent = None, effects = fetch_events st \<rparr>
         | (st, Threw e) \<Rightarrow> respond 500 (ErrorBody (''YouTube API error: '' @ e)) (fetch_events st)
         | (st, Completed) \<Rightarrow>
             if length (allSearchResults st) = 0
             then respond 404 (ErrorBody ''No videos found for this channel'') (fetch_events st)
             else
               (let found = allSearchResults st;
                    totalBatches = totalBatches_of (length found);
                    bs = batch_loop (completions_create w) (parse_JSON w) found totalBatches 0
                           (initial_batch_state (fetch_events st))
                in case combineAnalyses (allAnalyses bs) (length found) of
                     Inl e \<Rightarrow>
                       respond 500 (ErrorDetailsBody ''An unexpected error occurred during analysis'' e)
                         (batch_events bs)
                   | Inr finalAnalysis \<Rightarrow>
                       respond 200
                         (ReportBody
                            \<lparr> userName = userName',
                              query = channelName',
                              totalVideosFound = length found,
                              batchesAnalyzed = length (allAnalyses bs),
                              batchesFailed = length (failedBatches bs),
                              failedBatchDetails = failedBatches bs,
                              searchResults = found,
                              analysis = finalAnalysis \<rparr>)
                         (batch_events bs))))"

definition analyze :: "world \<Rightarrow> request \<Rightarrow> run" where
  "analyze w req =
     (case (body_userName req, body_channelName req) of
        (Some userName', Some channelName') \<Rightarrow>
          if userName' = [] \<or> channelName' = []
          then respond 400 (ErrorBody ''User name and channel name are required'') []
          else pipeline w userName' channelName'
      | _ \<Rightarrow> respond 400 (ErrorBody ''User name and channel name are required'') [])"

section \<open>extractJSON (test.js)\<close>

text \<open>
  The white space of \<^verbatim>\<open>trim\<close> and of \<^verbatim>\<open>\s\<close>, as far as it is ASCII: space, tab, line
  feed, vertical tab, form feed, carriage return.
\<close>

definition is_space :: "char \<Rightarrow> bool" where
  "is_space c = (c \<in> set [CHR 32, CHR 9, CHR 10, CHR 11, CHR 12, CHR 13])"

definition trim :: "string \<Rightarrow> string" where
  "trim s = rev (dropWhile is_space (rev (dropWhile is_space s)))"

definition fence :: string where
  "fence = [CHR 96, CHR 96, CHR 96]"

text \<open>The word \<^verbatim>\<open>json\<close> under the flag \<^verbatim>\<open>i\<close>, at the head of a text.\<close>

fun starts_with_json :: "string \<Rightarrow> bool" where
  "starts_with_json (a # b # c # d # rest) =
     ((a = CHR ''j'' \<or> a = CHR ''J'') \<and> (b = CHR ''s'' \<or> b = CHR ''S'')
      \<and> (c = CHR ''o'' \<or> c = CHR ''O'') \<and> (d = CHR ''n'' \<or> d = CHR ''N''))"
| "starts_with_json _ = False"

text \<open>Replacing the match of the opening-fence pattern (anchored at the start) by nothing.\<close>

definition strip_opening_fence :: "string \<Rightarrow> string" where
  "strip_opening_fence s =
     (if take 3 s = fence
      then (let r = drop 3 s
            in dropWhile is_space (if starts_with_json r then drop 4 r else r))
      else s)"

text \<open>Replacing the match of the closing-fence pattern (anchored at the end) by nothing.\<close>

definition strip_closing_fence :: "string \<Rightarrow> string" where
  "strip_closing_fence s =
     (if 3 \<le> length s \<and> drop (length s - 3) s = fence then take (length s - 3) s else s)"

fun indexOf :: "'a \<Rightarrow> 'a list \<Rightarrow> nat option" where
  "indexOf c [] = None"
| "indexOf c (x # xs) = (if x = c then Some 0 else map_option Suc (indexOf c xs))"

definition lastIndexOf :: "'a \<Rightarrow> 'a list \<Rightarrow> nat option" where
  "lastIndexOf c xs = map_option (\<lambda>i. length xs - 1 - i) (indexOf c (rev xs))"

definition not_valid_JSON :: exn where
  "not_valid_JSON = ''Model did not return valid JSON''"

definition extractJSON :: "(string \<Rightarrow> exn + 'j) \<Rightarrow> string \<Rightarrow> exn + 'j" where
  "extractJSON JSON_parse text' =
     (let fenced = strip_closing_fence (strip_opening_fence (trim text'))
      in case JSON_parse fenced of
           Inr v \<Rightarrow> Inr v
         | Inl _ \<Rightarrow>
             (case (indexOf (CHR ''{'') fenced, lastIndexOf (CHR ''}'') fenced) of
                (Some first, Some last') \<Rightarrow>
                  if last' > first
                  then (case JSON_parse (slice first (last' + 1) fenced) of
                          Inr v \<Rightarrow> Inr v
                        | Inl _ \<Rightarrow> Inl not_valid_JSON)
                  else Inl not_valid_JSON
              | _ \<Rightarrow> Inl not_valid_JSON))"

section \<open>What the claims compare the batch loop with\<close>

text \<open>The values the index of the \<^verbatim>\<open>for\<close> loop takes from \<open>i\<close> on, over \<open>n\<close> videos.\<close>

function loop_indices :: "nat \<Rightarrow> nat \<Rightarrow> nat list" where
  "loop_indices n i = (if i < n then i # loop_indices n (i + batchSize) else [])"
  by pat_completeness auto
termination
  by (relation "measure (\<lambda>(n, i). n - i)") (auto simp: batchSize_def)

declare loop_indices.simps [simp del]

text \<open>What \<^verbatim>\<open>analyzeBatch\<close> does for the batch that starts at index \<open>i\<close>.\<close>

definition outcome ::
  "(VideoMetadata list \<Rightarrow> nat \<Rightarrow> nat \<Rightarrow> exn + string option) \<Rightarrow> (string \<Rightarrow> exn + parsed) \<Rightarrow>
   VideoMetadata list \<Rightarrow> nat \<Rightarrow> nat \<Rightarrow> exn + parsed" where
  "outcome create JSON_parse allResults totalBatches i =
     analyzeBatch create JSON_parse (slice i (i + batchSize) allResults) (i div batchSize + 1) totalBatches"

definition outcomes ::
  "(VideoMetadata list \<Rightarrow> nat \<Rightarrow> nat \<Rightarrow> exn + string option) \<Rightarrow> (string \<Rightarrow> exn + parsed) \<Rightarrow>
   VideoMetadata list \<Rightarrow> (exn + parsed) list" where
  "outcomes create JSON_parse allResults =
     map (outcome create JSON_parse allResults (totalBatches_of (length allResults)))
       (loop_indices (length allResults) 0)"

text \<open>What one pass of the loop appends to the three lists it builds, given the outcome.\<close>

definition recorded :: "nat \<Rightarrow> exn + parsed \<Rightarrow> parsed" where
  "recorded i r = (case r of Inr a \<Rightarrow> a | Inl e \<Rightarrow> ParsedObject (failure_placeholder (i div batchSize + 1)))"

definition failure_detail :: "VideoMetadata list \<Rightarrow> nat \<Rightarrow> exn + parsed \<Rightarrow> FailedBatch list" where
  "failure_detail allResults i r =
     (case r of
        Inr a \<Rightarrow> []
      | Inl e \<Rightarrow> [\<lparr> failed_batchNumber = i div batchSize + 1, failed_error = e,
                      failed_videosInBatch = length (slice i (i + batchSize) allResults) \<rparr>])"

definition step_events :: "VideoMetadata list \<Rightarrow> nat \<Rightarrow> nat \<Rightarrow> exn + parsed \<Rightarrow> event list" where
  "step_events allResults totalBatches i r =
     Dispatch (i div batchSize + 1) (slice i (i + batchSize) allResults) totalBatches
       # (if isl r then [] else if i + batchSize < length allResults then [Sleep 1000] else [])"

text \<open>
  A batch outcome the merge can account for: the call threw, or the reply parsed to an
  object that does not itself carry the failure marker.
\<close>

fun usable :: "exn + parsed \<Rightarrow> bool" where
  "usable (Inl e) = True"
| "usable (Inr ParsedNull) = False"
| "usable (Inr (ParsedObject a)) = (\<not> batch_failed a)"

text \<open>The ranked entries a batch outcome contributes: those of a successful reply.\<close>

fun contributed :: "exn + parsed \<Rightarrow> RiskEntry list" where
  "contributed (Inr (ParsedObject a)) = (case ranked_list a of None \<Rightarrow> [] | Some entries \<Rightarrow> entries)"
| "contributed _ = []"

section \<open>What the claims compare the merge with\<close>

text \<open>
  The severity order of the specification, High above Medium above Low, written without
  the numeric table of the code.
\<close>

definition more_severe :: "string option \<Rightarrow> string option \<Rightarrow> bool" where
  "more_severe a b = ((a = High \<and> (b = Medium \<or> b = Low)) \<or> (a = Medium \<and> b = Low))"

text \<open>An entry whose risk is one of the three levels.\<close>

definition has_risk_level :: "RiskEntry \<Rightarrow> bool" where
  "has_risk_level e = (risk e = High \<or> risk e = Medium \<or> risk e = Low)"

text \<open>
  The elements of a list at the positions where they occur for the first time, in the
  order of those positions.
\<close>

definition first_occurrences :: "'a list \<Rightarrow> 'a list" where
  "first_occurrences xs =
     map (\<lambda>i. xs ! i) (filter (\<lambda>i. xs ! i \<notin> set (take i xs)) [0..<length xs])"

text \<open>
  The summary as the specification words it: the qualifier sentence chosen by whether
  the count of High and Medium entries is positive.
\<close>

definition summary_as_claimed :: "RiskEntry list \<Rightarrow> string" where
  "summary_as_claimed merged =
     (let n = length (filter (\<lambda>e. risk e = High \<or> risk e = Medium) merged)
      in ''We found '' @ show_nat n @ '' Movies with Possible infringement. ''
           @ (if n > 0
              then ''Immediate attention recommended for high-risk content.''
              else ''No immediate high-risk concerns detected.''))"

section \<open>Example inputs\<close>

definition medium_entry :: RiskEntry where
  "medium_entry = \<lparr> entry_videoId = Some ''v1'', entry_title = Some ''Song (lyrics)'',
      channel = Some ''Fan Uploads'', entry_publishedAt = Some ''2024-01-01T00:00:00Z'',
      risk = Medium, rationale = [''Possible infringement''] \<rparr>"

definition medium_only :: BatchAnalysis where
  "medium_only = \<lparr> summary = Some ''One video needs review.'', ranked_list = Some [medium_entry],
      top_priority = Some [''v1''], checklist = None, next_actions = None, disclaimer = None,
      batch_failed = False, batch_number = None \<rparr>"



definition quoted :: "string \<Rightarrow> string" where
  "quoted s = [CHR 34] @ s @ [CHR 34]"

text \<open>A reply with one ranked entry, as JSON text and as what \<^verbatim>\<open>JSON.parse\<close> makes of it.\<close>

definition medium_reply_text :: string where
  "medium_reply_text =
     ''{'' @ quoted ''ranked_list'' @ '':[{'' @ quoted ''videoId'' @ '':'' @ quoted ''v1'' @ '',''
       @ quoted ''risk'' @ '':'' @ quoted ''Medium'' @ '','' @ quoted ''rationale'' @ '':[]}]}''"

definition medium_reply :: BatchAnalysis where
  "medium_reply =
     \<lparr> summary = None,
       ranked_list = Some [\<lparr> entry_videoId = Some ''v1'', entry_title = None, channel = None,
                             entry_publishedAt = None, risk = Medium, rationale = [] \<rparr>],
       top_priority = None, checklist = None, next_actions = None, disclaimer = None,
       batch_failed = False, batch_number = None \<rparr>"

definition empty_object :: BatchAnalysis where
  "empty_object = \<lparr> summary = None, ranked_list = None, top_priority = None, checklist = None,
      next_actions = None, disclaimer = None, batch_failed = False, batch_number = None \<rparr>"

text \<open>
  \<^verbatim>\<open>JSON.parse\<close> for the examples. They apply it to four texts only: the literal
  \<^verbatim>\<open>null\<close>, the empty object \<^verbatim>\<open>{}\<close>, the reply text above, and \<^verbatim>\<open>Result: {}\<close>, which
  is not JSON; on these it is the built-in, up to the wording of the SyntaxError.
\<close>

definition JSON_parse_examples :: "string \<Rightarrow> exn + parsed" where
  "JSON_parse_examples s =
     (if s = ''null'' then Inr ParsedNull
      else if s = ''{}'' then Inr (ParsedObject empty_object)
      else if s = medium_reply_text then Inr (ParsedObject medium_reply)
      else Inl ''Unexpected token'')"

definition example_item :: raw_item where
  "example_item =
     \<lparr> item_id = Some \<lparr> id_videoId = Some ''abc123'' \<rparr>,
       item_snippet = Some \<lparr> snippet_title = Some ''Song (lyrics)'', snippet_description = None,
         snippet_channelTitle = Some ''Fan Uploads'', snippet_channelId = Some ''UC1'',
         snippet_publishedAt = Some ''2024-01-01T00:00:00Z'', snippet_thumbnails = None,
         snippet_publishTime = Some ''2024-01-01T00:00:00Z'' \<rparr> \<rparr>"

definition example_video :: VideoMetadata where
  "example_video =
     \<lparr> videoId = Some ''abc123'', title = Some ''Song (lyrics)'', description = None,
       channelTitle = Some ''Fan Uploads'', channelId = Some ''UC1'',
       publishedAt = Some ''2024-01-01T00:00:00Z'', thumbnails = None,
       publishTime = Some ''2024-01-01T00:00:00Z'' \<rparr>"

definition example_world ::
  "(exn + page) list \<Rightarrow> (VideoMetadata list \<Rightarrow> nat \<Rightarrow> nat \<Rightarrow> exn + string option) \<Rightarrow> world" where
  "example_world pages create =
     \<lparr> YOUTUBE_API_KEY = Some ''youtube-key'', OPENAI_API_KEY = Some ''openai-key'',
       axios_get = pages, completions_create = create, parse_JSON = JSON_parse_examples,
       Date_now = (\<lambda>k. 0), toISOString = (\<lambda>t. ''1970-01-01T00:00:00.000Z'') \<rparr>"

definition example_request :: request where
  "example_request = \<lparr> body_userName = Some ''Artist'', body_channelName = Some ''ArtistOfficial'' \<rparr>"

definition one_page :: "raw_item list \<Rightarrow> (exn + page) list" where
  "one_page its = [Inr \<lparr> items = Some its, page_nextPageToken = None \<rparr>]"

definition null_content :: "VideoMetadata list \<Rightarrow> nat \<Rightarrow> nat \<Rightarrow> exn + string option" where
  "null_content b n t = Inr None"

definition first_call_fails :: "VideoMetadata list \<Rightarrow> nat \<Rightarrow> nat \<Rightarrow> exn + string option" where
  "first_call_fails b n t = (if n = 1 then Inl ''429 Too Many Requests'' else Inr (Some ''{}''))"

definition second_call_answers :: "VideoMetadata list \<Rightarrow> nat \<Rightarrow> nat \<Rightarrow> exn + string option" where
  "second_call_answers b n t = (if n = 1 then Inl ''429 Too Many Requests'' else Inr (Some medium_reply_text))"

definition every_call_answers :: "VideoMetadata list \<Rightarrow> nat \<Rightarrow> nat \<Rightarrow> exn + string option" where
  "every_call_answers b n t = Inr (Some ''{}'')"

definition prose_then_object :: "VideoMetadata list \<Rightarrow> nat \<Rightarrow> nat \<Rightarrow> exn + string option" where
  "prose_then_object b n t = Inr (Some ''Result: {}'')"

definition item_without_id :: raw_item where
  "item_without_id =
     \<lparr> item_id = None,
       item_snippet = Some \<lparr> snippet_title = Some ''Song (lyrics)'', snippet_description = None,
         snippet_channelTitle = None, snippet_channelId = None, snippet_publishedAt = None,
         snippet_thumbnails = None, snippet_publishTime = None \<rparr> \<rparr>"

definition item_without_snippet :: raw_item where
  "item_without_snippet = \<lparr> item_id = Some \<lparr> id_videoId = Some ''abc123'' \<rparr>, item_snippet = None \<rparr>"

definition page_with_token :: "exn + page" where
  "page_with_token = Inr \<lparr> items = Some [example_item], page_nextPageToken = Some ''CAUQAA'' \<rparr>"

section \<open>Properties of the built-ins\<close>

lemma mset_sort_insert: "mset (sort_insert cmp x ys) = add_mset x (mset ys)"
  by (induction ys) simp_all

lemma mset_Array_sort: "mset (Array_sort cmp xs) = mset xs"
  by (induction xs) (simp_all add: Array_sort_def mset_sort_insert)

lemma set_Array_sort: "set (Array_sort cmp xs) = set xs"
  using mset_Array_sort [of cmp xs] by (metis set_mset_mset)

lemma length_filter_Array_sort:
  "length (filter P (Array_sort cmp xs)) = length (filter P xs)"
  by (metis mset_Array_sort mset_filter size_mset)

lemma filter_Array_sort_empty:
  "filter P (Array_sort cmp xs) = [] \<longleftrightarrow> filter P xs = []"
  using length_filter_Array_sort [of P cmp xs] by (metis length_0_conv)

text \<open>
  On entries whose risk is one of the three levels the comparator is a number and
  orders by the negated priority; the sort is then the stable insertion sort by that
  key.
\<close>

lemma SortCompare_by_risk:
  "has_risk_level a \<Longrightarrow> has_risk_level b \<Longrightarrow>
     SortCompare by_risk a b \<le> 0
       \<longleftrightarrow> - (case riskPriority (risk a) of None \<Rightarrow> 0 | Some p \<Rightarrow> p)
           \<le> - (case riskPriority (risk b) of None \<Rightarrow> 0 | Some p \<Rightarrow> p)"
  by (auto simp: has_risk_level_def SortCompare_def by_risk_def riskPriority_def)

lemma priority_eq_iff:
  "has_risk_level a \<Longrightarrow> has_risk_level b \<Longrightarrow>
     (case riskPriority (risk a) of None \<Rightarrow> 0 | Some p \<Rightarrow> p)
       = (case riskPriority (risk b) of None \<Rightarrow> (0::int) | Some p \<Rightarrow> p)
     \<longleftrightarrow> risk a = risk b"
  by (auto simp: has_risk_level_def riskPriority_def)

lemma more_severe_priority:
  "has_risk_level a \<Longrightarrow> has_risk_level b \<Longrightarrow>
     more_severe (risk a) (risk b)
       \<longleftrightarrow> (case riskPriority (risk b) of None \<Rightarrow> 0 | Some p \<Rightarrow> p)
           < (case riskPriority (risk a) of None \<Rightarrow> (0::int) | Some p \<Rightarrow> p)"
  by (auto simp: has_risk_level_def riskPriority_def more_severe_def)

lemma sort_insert_insort_key:
  "has_risk_level x \<Longrightarrow> list_all has_risk_level ys \<Longrightarrow>
     sort_insert by_risk x ys
       = insort_key (\<lambda>e. - (case riskPriority (risk e) of None \<Rightarrow> 0 | Some p \<Rightarrow> p)) x ys"
  by (induction ys) (simp_all add: SortCompare_by_risk)

lemma Array_sort_sort_key:
  "list_all has_risk_level xs \<Longrightarrow>
     Array_sort by_risk xs
       = sort_key (\<lambda>e. - (case riskPriority (risk e) of None \<Rightarrow> 0 | Some p \<Rightarrow> p)) xs"
proof (induction xs)
  case Nil
  show ?case by (simp add: Array_sort_def)
next
  case (Cons x xs)
  then have rest: "Array_sort by_risk xs
      = sort_key (\<lambda>e. - (case riskPriority (risk e) of None \<Rightarrow> 0 | Some p \<Rightarrow> p)) xs"
    by simp
  from Cons.prems have "list_all has_risk_level (Array_sort by_risk xs)"
    by (simp add: list_all_iff set_Array_sort)
  with Cons.prems have "sort_insert by_risk x (Array_sort by_risk xs)
      = insort_key (\<lambda>e. - (case riskPriority (risk e) of None \<Rightarrow> 0 | Some p \<Rightarrow> p)) x
          (Array_sort by_risk xs)"
    by (simp add: sort_insert_insort_key)
  then show ?case
    using rest by (simp add: Array_sort_def sort_key_def)
qed



text \<open>
  The three properties fix the result: whatever stable sorting algorithm the engine
  runs, on entries with risk levels it returns what \<open>Array_sort\<close> returns.
\<close>

lemma Array_sort_by_risk_unique:
  assumes levels: "list_all has_risk_level xs"
    and perm: "mset ys = mset xs"
    and desc: "sorted_wrt (\<lambda>a b. \<not> more_severe (risk b) (risk a)) ys"
    and stable: "\<And>r. filter (\<lambda>e. risk e = r) ys = filter (\<lambda>e. risk e = r) xs"
  shows "Array_sort by_risk xs = ys"
proof -
  let ?f = "\<lambda>e. - (case riskPriority (risk e) of None \<Rightarrow> (0::int) | Some p \<Rightarrow> p)"
  have same_set: "set ys = set xs"
    using perm by (rule mset_eq_setD)
  have level: "has_risk_level e" if "e \<in> set ys" for e
    using that levels same_set by (simp add: list_all_iff)
  have "?f a \<le> ?f b" if "a \<in> set ys" "b \<in> set ys" "\<not> more_severe (risk b) (risk a)" for a b
    using that(3) more_severe_priority [OF level [OF that(2)] level [OF that(1)]] by simp
  then have "sorted_wrt (\<lambda>a b. ?f a \<le> ?f b) ys"
    using desc by (rule sorted_wrt_mono_rel)
  then have sorted: "sorted (map ?f ys)"
    by (simp add: sorted_map)
  have keep: "filter (\<lambda>x. ?f k = ?f x) ys = filter (\<lambda>x. ?f k = ?f x) xs" if k: "k \<in> set ys" for k
  proof -
    have "filter (\<lambda>x. ?f k = ?f x) ys = filter (\<lambda>x. risk x = risk k) ys"
      by (rule filter_cong) (use priority_eq_iff [OF level [OF k]] level in auto)
    also have "\<dots> = filter (\<lambda>x. risk x = risk k) xs"
      by (rule stable)
    also have "\<dots> = filter (\<lambda>x. ?f k = ?f x) xs"
      by (rule filter_cong) (use priority_eq_iff [OF level [OF k]] level same_set in auto)
    finally show ?thesis .
  qed
  have "sort_key ?f xs = ys"
    using perm keep sorted by (rule properties_for_sort_key)
  then show ?thesis
    by (simp add: Array_sort_sort_key [OF levels])
qed

lemma first_occurrences_snoc:
  "first_occurrences (xs @ [x]) = first_occurrences xs @ (if x \<in> set xs then [] else [x])"
proof -
  have a: "filter (\<lambda>i. (xs @ [x]) ! i \<notin> set (take i (xs @ [x]))) [0..<length xs]
         = filter (\<lambda>i. xs ! i \<notin> set (take i xs)) [0..<length xs]"
    by (rule filter_cong) (auto simp: nth_append)
  have b: "map (\<lambda>i. (xs @ [x]) ! i) (filter (\<lambda>i. xs ! i \<notin> set (take i xs)) [0..<length xs])
         = map (\<lambda>i. xs ! i) (filter (\<lambda>i. xs ! i \<notin> set (take i xs)) [0..<length xs])"
    by (rule map_cong) (auto simp: nth_append)
  have c: "first_occurrences (xs @ [x]) =
      map (\<lambda>i. (xs @ [x]) ! i)
        (filter (\<lambda>i. (xs @ [x]) ! i \<notin> set (take i (xs @ [x]))) [0..<length xs])
      @ (if x \<in> set xs then [] else [x])"
    unfolding first_occurrences_def by simp
  show ?thesis
    unfolding c a b by (simp add: first_occurrences_def)
qed

lemma set_foldl_Set_add: "set (foldl Set_add acc xs) = set acc \<union> set xs"
  by (induction xs arbitrary: acc) (auto simp: Set_add_def)

lemma Set_spread_snoc: "Set_spread (xs @ [x]) = Set_add (Set_spread xs) x"
  by (simp add: Set_spread_def)

lemma set_Set_spread: "set (Set_spread xs) = set xs"
  by (simp add: Set_spread_def set_foldl_Set_add)

lemma Set_spread_first_occurrences: "Set_spread xs = first_occurrences xs"
proof (induction xs rule: rev_induct)
  case Nil
  show ?case by (simp add: Set_spread_def first_occurrences_def)
next
  case (snoc x xs)
  have "Set_spread (xs @ [x]) = Set_spread xs @ (if x \<in> set xs then [] else [x])"
    by (simp add: Set_spread_snoc Set_add_def set_Set_spread)
  then show ?case
    by (simp only: snoc.IH first_occurrences_snoc)
qed

lemma distinct_Set_spread: "distinct (Set_spread xs)"
proof (induction xs rule: rev_induct)
  case Nil
  show ?case by (simp add: Set_spread_def)
next
  case (snoc x xs)
  then show ?case
    by (simp add: Set_spread_snoc Set_add_def)
qed

lemma slice_from_0: "slice 0 n xs = take n xs"
  by (simp add: slice_def)

section \<open>The merge on analyses that are objects\<close>

lemma flatMap_ranked_list_objects:
  "flatMap read_ranked_list (map ParsedObject as) = Inr (concat (map (\<lambda>a. or_empty (ranked_list a)) as))"
  by (induction as) simp_all

lemma flatMap_top_priority_objects:
  "flatMap read_top_priority (map ParsedObject as) = Inr (concat (map (\<lambda>a. or_empty (top_priority a)) as))"
  by (induction as) simp_all

lemma objects_map_ParsedObject: "objects (map ParsedObject as) = as"
  by (induction as) simp_all

lemma combineAnalyses_objects:
  "combineAnalyses (map ParsedObject as) n =
     Inr \<lparr> final_summary =
             combined_summary
               (length (filter (\<lambda>item. risk item = High) (concat (map (\<lambda>a. or_empty (ranked_list a)) as))))
               (length (filter (\<lambda>item. risk item = Medium) (concat (map (\<lambda>a. or_empty (ranked_list a)) as)))),
           final_ranked_list = Array_sort by_risk (concat (map (\<lambda>a. or_empty (ranked_list a)) as)),
           final_top_priority = take 10 (Set_spread (concat (map (\<lambda>a. or_empty (top_priority a)) as))),
           final_checklist =
             or_empty (Option.bind (case filter (\<lambda>a. \<not> batch_failed a) as of [] \<Rightarrow> None | a # _ \<Rightarrow> Some a) checklist),
           final_next_actions =
             or_empty (Option.bind (case filter (\<lambda>a. \<not> batch_failed a) as of [] \<Rightarrow> None | a # _ \<Rightarrow> Some a) next_actions),
           final_disclaimer =
             or_default (Option.bind (case filter (\<lambda>a. \<not> batch_failed a) as of [] \<Rightarrow> None | a # _ \<Rightarrow> Some a) disclaimer)
               default_disclaimer,
           batch_count = length as,
           failed_batches = length (filter batch_failed as) \<rparr>"
  by (simp add: combineAnalyses_def flatMap_ranked_list_objects flatMap_top_priority_objects
      objects_map_ParsedObject slice_from_0 Let_def)

section \<open>Claims about the merge\<close>




text \<open>
  C4. For every list of batch analyses the merged \<^verbatim>\<open>top_priority\<close> has no repeated
  videoId, has at most ten entries, and is the first ten of the first occurrences, in
  their order, of the ids in the concatenation of the batches' \<^verbatim>\<open>top_priority\<close> lists.
\<close>

theorem merged_top_priority_deduplicated:
  "\<exists>fa. combineAnalyses (map ParsedObject analyses) totalVideos = Inr fa \<and>
        distinct (final_top_priority fa) \<and>
        length (final_top_priority fa) \<le> 10 \<and>
        final_top_priority fa
          = take 10 (first_occurrences (concat (map (\<lambda>a. or_empty (top_priority a)) analyses)))"
proof -
  let ?ids = "concat (map (\<lambda>a. or_empty (top_priority a)) analyses)"
  have "distinct (take 10 (Set_spread ?ids))"
    by (rule distinct_take) (rule distinct_Set_spread)
  moreover have "take 10 (Set_spread ?ids) = take 10 (first_occurrences ?ids)"
    by (simp only: Set_spread_first_occurrences)
  ultimately show ?thesis
    by (simp add: combineAnalyses_objects)
qed

text \<open>
  C5, as the code has it. For every list of batch analyses the merged summary states
  the number of High and Medium entries of the merged \<^verbatim>\<open>ranked_list\<close>; the qualifier
  sentence that follows is chosen by whether the number of High entries alone is
  positive.
\<close>

theorem merged_summary_counts_and_qualifier:
  "\<exists>fa. combineAnalyses (map ParsedObject analyses) totalVideos = Inr fa \<and>
        final_summary fa =
          ''We found ''
            @ show_nat (length (filter (\<lambda>e. risk e = High \<or> risk e = Medium) (final_ranked_list fa)))
            @ '' Movies with Possible infringement. ''
            @ (if 0 < length (filter (\<lambda>e. risk e = High) (final_ranked_list fa))
               then ''Immediate attention recommended for high-risk content.''
               else ''No immediate high-risk concerns detected.'')"
proof -
  let ?all = "concat (map (\<lambda>a. or_empty (ranked_list a)) analyses)"
  have both: "length (filter (\<lambda>e. risk e = High \<or> risk e = Medium) xs)
      = length (filter (\<lambda>e. risk e = High) xs) + length (filter (\<lambda>e. risk e = Medium) xs)"
    for xs :: "RiskEntry list"
    by (induction xs) auto
  show ?thesis
    by (simp add: combineAnalyses_objects combined_summary_def length_filter_Array_sort both
        filter_Array_sort_empty)
qed

text \<open>
  C5 as the specification words it fails: a single batch with one Medium entry gives a
  count of one, yet the summary ends with the sentence for no high-risk content.
\<close>

theorem merged_summary_qualifier_counterexample:
  "map_sum id final_summary (combineAnalyses [ParsedObject medium_only] 1)
     = Inr ''We found 1 Movies with Possible infringement. No immediate high-risk concerns detected.''
   \<and> map_sum id (\<lambda>fa. summary_as_claimed (final_ranked_list fa)) (combineAnalyses [ParsedObject medium_only] 1)
     = Inr ''We found 1 Movies with Possible infringement. Immediate attention recommended for high-risk content.''"
  by (simp add: combineAnalyses_def medium_only_def medium_entry_def combined_summary_def
      summary_as_claimed_def show_nat.simps digit_char_def or_empty_def slice_def Set_spread_def
      Set_add_def Array_sort_def)

section \<open>Properties of the batch loop\<close>

lemma dispatched_append: "dispatched (es @ fs) = dispatched es @ dispatched fs"
  by (induction es rule: dispatched.induct) simp_all

lemma dispatched_batch_step:
  "dispatched (batch_events (batch_step create parse xs t i st))
     = dispatched (batch_events st) @ [(i div batchSize + 1, slice i (i + batchSize) xs)]"
  by (simp add: batch_step_def Let_def dispatched_append split: sum.split)

lemma batch_loop_done: "\<not> i < length xs \<Longrightarrow> batch_loop create parse xs t i st = st"
  by (simp add: batch_loop.simps)

lemma batch_loop_more:
  "i < length xs \<Longrightarrow>
     batch_loop create parse xs t i st
       = batch_loop create parse xs t (i + batchSize) (batch_step create parse xs t i st)"
  by (subst batch_loop.simps) simp

lemma slice_then_drop: "slice i (i + n) xs @ drop (i + n) xs = drop i xs"
proof -
  have "drop (i + n) xs = drop n (drop i xs)"
    by (simp add: add.commute)
  moreover have "slice i (i + n) xs = take n (drop i xs)"
    by (simp add: slice_def)
  ultimately show ?thesis
    by (simp only: append_take_drop_id)
qed

lemma batches_concat:
  "concat (map snd (dispatched (batch_events (batch_loop create parse xs t i st))))
     = concat (map snd (dispatched (batch_events st))) @ drop i xs"
proof (induction create parse xs t i st rule: batch_loop.induct)
  case (1 create parse xs t i st)
  show ?case
  proof (cases "i < length xs")
    case False
    then show ?thesis
      by (simp add: batch_loop_done)
  next
    case True
    show ?thesis
      by (simp add: batch_loop_more [OF True] "1.IH" [OF True] dispatched_batch_step slice_then_drop)
  qed
qed

lemma batches_left_done: "\<not> i < n \<Longrightarrow> batches_left n i = 0"
  by (simp add: batches_left_def batchSize_def)

lemma batches_left_more:
  assumes "i < n"
  shows "batches_left n i = Suc (batches_left n (i + batchSize))"
proof (cases "i + 10 \<le> n")
  case True
  then obtain d where "n = i + 10 + d"
    using le_Suc_ex by blast
  moreover have "(d + 10 + 9) div 10 = Suc ((d + 9) div 10)"
    by simp
  ultimately show ?thesis
    by (simp add: batches_left_def batchSize_def add.commute add.left_commute)
next
  case False
  with assms have "0 < n - i" "n - i < 10" "n - (i + 10) = 0"
    by simp_all
  then show ?thesis
    by (simp add: batches_left_def batchSize_def div_nat_eqI)
qed

lemma next_ordinal: "(i + batchSize) div batchSize = i div batchSize + 1"
  by (simp add: batchSize_def)

lemma batches_ordinals:
  "map fst (dispatched (batch_events (batch_loop create parse xs t i st)))
     = map fst (dispatched (batch_events st))
       @ [i div batchSize + 1 ..< i div batchSize + 1 + batches_left (length xs) i]"
proof (induction create parse xs t i st rule: batch_loop.induct)
  case (1 create parse xs t i st)
  show ?case
  proof (cases "i < length xs")
    case False
    then show ?thesis
      by (simp add: batch_loop_done batches_left_done)
  next
    case True
    have "[i div batchSize + 1 ..< i div batchSize + 1 + batches_left (length xs) i]
        = (i div batchSize + 1)
          # [(i + batchSize) div batchSize + 1
               ..< (i + batchSize) div batchSize + 1 + batches_left (length xs) (i + batchSize)]"
      by (simp add: batches_left_more [OF True] next_ordinal upt_conv_Cons del: upt_Suc)
    then show ?thesis
      by (simp add: batch_loop_more [OF True] "1.IH" [OF True] dispatched_batch_step del: upt_Suc)
  qed
qed

lemma totalBatches_of_div: "totalBatches_of n = (n + 9) div 10"
proof -
  define m where "m = (n + 9) div 10"
  define r where "r = (n + 9) mod 10"
  have "m * 10 + r = n + 9"
    unfolding m_def r_def by (rule div_mult_mod_eq)
  moreover have "r < 10"
    unfolding r_def by simp
  ultimately have le: "n \<le> 10 * m" and less: "10 * m < n + 10"
    by linarith+
  have "real n \<le> real (10 * m)"
    using le by (simp only: of_nat_le_iff)
  moreover have "real (10 * m) < real (n + 10)"
    using less by (simp only: of_nat_less_iff)
  ultimately have "real_of_int (int m) - 1 < real n / 10" "real n / 10 \<le> real_of_int (int m)"
    by simp_all
  then have "\<lceil>real n / 10\<rceil> = int m"
    by (rule ceiling_unique)
  then show ?thesis
    by (simp add: totalBatches_of_def batchSize_def m_def)
qed

lemma batches_left_0: "batches_left n 0 = totalBatches_of n"
  by (simp add: batches_left_def totalBatches_of_div batchSize_def)

lemma batch_step_unfold:
  "batch_step create parse xs t i st =
     \<lparr> allAnalyses = allAnalyses st @ [recorded i (outcome create parse xs t i)],
       failedBatches = failedBatches st @ failure_detail xs i (outcome create parse xs t i),
       batch_events = batch_events st @ step_events xs t i (outcome create parse xs t i) \<rparr>"
  by (cases "outcome create parse xs t i")
     (simp_all add: batch_step_def outcome_def recorded_def failure_detail_def step_events_def Let_def)

lemma batch_loop_unfold:
  "batch_loop create parse xs t i st =
     \<lparr> allAnalyses = allAnalyses st @ map (\<lambda>j. recorded j (outcome create parse xs t j)) (loop_indices (length xs) i),
       failedBatches = failedBatches st
         @ concat (map (\<lambda>j. failure_detail xs j (outcome create parse xs t j)) (loop_indices (length xs) i)),
       batch_events = batch_events st
         @ concat (map (\<lambda>j. step_events xs t j (outcome create parse xs t j)) (loop_indices (length xs) i)) \<rparr>"
proof (induction create parse xs t i st rule: batch_loop.induct)
  case (1 create parse xs t i st)
  show ?case
  proof (cases "i < length xs")
    case False
    then show ?thesis
      by (simp add: batch_loop_done loop_indices.simps [of _ i])
  next
    case True
    have "batch_loop create parse xs t i st
        = batch_loop create parse xs t (i + batchSize) (batch_step create parse xs t i st)"
      by (rule batch_loop_more [OF True])
    also note "1.IH" [OF True]
    finally show ?thesis
      by (simp add: batch_step_unfold loop_indices.simps [of _ i] True)
  qed
qed

lemma length_loop_indices: "length (loop_indices n i) = batches_left n i"
proof (induction n i rule: loop_indices.induct)
  case (1 n i)
  show ?case
  proof (cases "i < n")
    case False
    then show ?thesis by (simp add: loop_indices.simps [of _ i] batches_left_done)
  next
    case True
    then show ?thesis
      using "1.IH" [OF True] by (simp add: loop_indices.simps [of _ i] batches_left_more)
  qed
qed

text \<open>
  The effects of the whole loop: every dispatch, followed by the pause of 1000 ms when
  the analysis of that batch did not throw and videos remain.
\<close>

lemma pauses_of_batch_loop:
  "batch_events (batch_loop create parse xs t 0 (initial_batch_state es))
     = es @ concat (map (\<lambda>j. step_events xs t j (outcome create parse xs t j)) (loop_indices (length xs) 0))"
  by (simp add: batch_loop_unfold initial_batch_state_def)

lemma recorded_usable:
  "usable r \<Longrightarrow>
     \<exists>a. recorded j r = ParsedObject a \<and> batch_failed a = isl r
        \<and> or_empty (ranked_list a) = contributed r"
  by (cases r rule: usable.cases)
     (simp_all add: recorded_def failure_placeholder_def or_empty_def)

lemma recorded_all_usable:
  "list_all usable (map f js) \<Longrightarrow>
     \<exists>as. map (\<lambda>j. recorded j (f j)) js = map ParsedObject as
        \<and> length (filter batch_failed as) = length (filter isl (map f js))
        \<and> concat (map (\<lambda>a. or_empty (ranked_list a)) as) = concat (map contributed (map f js))"
proof (induction js)
  case Nil
  show ?case by simp
next
  case (Cons j js)
  then obtain as where as: "map (\<lambda>j. recorded j (f j)) js = map ParsedObject as"
      "length (filter batch_failed as) = length (filter isl (map f js))"
      "concat (map (\<lambda>a. or_empty (ranked_list a)) as) = concat (map contributed (map f js))"
    by auto
  from Cons.prems obtain a where a: "recorded j (f j) = ParsedObject a" "batch_failed a = isl (f j)"
      "or_empty (ranked_list a) = contributed (f j)"
    using recorded_usable [of "f j" j] by auto
  show ?case
    by (rule exI [of _ "a # as"]) (simp add: as a)
qed

lemma length_failure_details:
  "length (concat (map (\<lambda>j. failure_detail xs j (f j)) js)) = length (filter isl (map f js))"
  by (induction js) (auto simp: failure_detail_def split: sum.splits)

section \<open>Claims about the batch loop\<close>

text \<open>
  C2. For every sequence of fetched videos the loop hands out exactly
  \<open>\<lceil>N / 10\<rceil>\<close> batches, the batches carry the ordinals 1, 2, 3, ... in the order of
  their dispatch, and the batches concatenated in that order are the fetched sequence.
\<close>

theorem batches_cover_videos_in_order:
  "length (dispatched (batch_events
       (batch_loop create JSON_parse allResults (totalBatches_of (length allResults)) 0
          (initial_batch_state [])))) = nat \<lceil>real (length allResults) / 10\<rceil>
   \<and> map fst (dispatched (batch_events
       (batch_loop create JSON_parse allResults (totalBatches_of (length allResults)) 0
          (initial_batch_state []))))
       = [1 ..< Suc (nat \<lceil>real (length allResults) / 10\<rceil>)]
   \<and> concat (map snd (dispatched (batch_events
       (batch_loop create JSON_parse allResults (totalBatches_of (length allResults)) 0
          (initial_batch_state []))))) = allResults"
proof -
  let ?ds = "dispatched (batch_events
       (batch_loop create JSON_parse allResults (totalBatches_of (length allResults)) 0
          (initial_batch_state [])))"
  have n: "nat \<lceil>real (length allResults) / 10\<rceil> = totalBatches_of (length allResults)"
    by (simp add: totalBatches_of_def batchSize_def)
  have ords: "map fst ?ds = [1 ..< Suc (totalBatches_of (length allResults))]"
    using batches_ordinals [of create JSON_parse allResults _ 0 "initial_batch_state []"]
    by (simp add: initial_batch_state_def batches_left_0)
  then have "length (map fst ?ds) = totalBatches_of (length allResults)"
    by simp
  then have len: "length ?ds = totalBatches_of (length allResults)"
    by simp
  have cat: "concat (map snd ?ds) = allResults"
    using batches_concat [of create JSON_parse allResults _ 0 "initial_batch_state []"]
    by (simp add: initial_batch_state_def)
  show ?thesis
    unfolding n using len ords cat by simp
qed

section \<open>Properties of the search stage\<close>

lemma await_page_resume:
  "await_page ps st = (st', Awaiting) \<Longrightarrow> await_page (ps @ qs) st = await_page qs st'"
proof (induction ps st rule: await_page.induct)
  case (1 st)
  then show ?case by simp
next
  case (2 r rs st)
  then show ?case
    by (auto simp: Let_def split: sum.splits if_splits)
qed

lemma fetch_pages_resume:
  "fetch_pages ps st = (st', Awaiting) \<Longrightarrow> fetch_pages (ps @ qs) st = await_page qs st'"
  by (simp add: fetch_pages_def await_page_resume)

lemma dispatched_request_page:
  "dispatched (fetch_events (request_page st)) = dispatched (fetch_events st)"
  by (simp add: request_page_def dispatched_append)

lemma dispatched_await_page:
  "await_page ps st = (st', r) \<Longrightarrow> dispatched (fetch_events st') = dispatched (fetch_events st)"
proof (induction ps st rule: await_page.induct)
  case (1 st)
  then show ?case by simp
next
  case (2 r rs st)
  then show ?case
    by (auto simp: Let_def dispatched_append dispatched_request_page split: sum.splits if_splits)
qed

lemma dispatched_fetch_pages:
  "fetch_pages ps st = (st', r) \<Longrightarrow> dispatched (fetch_events st') = dispatched (fetch_events st)"
  using dispatched_await_page [of ps "request_page st" st' r]
  by (simp add: fetch_pages_def dispatched_request_page)

text \<open>A request that throws, or a page that cannot be normalised, ends the handler with 500.\<close>

lemma pipeline_throws:
  assumes keys: "\<not> falsy (YOUTUBE_API_KEY w)" "\<not> falsy (OPENAI_API_KEY w)"
    and earlier: "fetch_pages earlier initial_fetch_state = (st, Awaiting)"
    and pages: "axios_get w = earlier @ r # later"
    and throws: "await_page [r] st = (st, Threw e)"
  shows "pipeline w u c = respond 500 (ErrorBody (''YouTube API error: '' @ e)) (fetch_events st)"
    and "dispatched (fetch_events st) = []"
proof -
  have "await_page (r # later) st = (st, Threw e)"
    using throws by (auto split: sum.splits if_splits simp: Let_def)
  then have "fetch_pages (axios_get w) initial_fetch_state = (st, Threw e)"
    unfolding pages using fetch_pages_resume [OF earlier] by simp
  then show "pipeline w u c = respond 500 (ErrorBody (''YouTube API error: '' @ e)) (fetch_events st)"
    using keys by (simp add: pipeline_def)
  have "dispatched (fetch_events st) = dispatched (fetch_events initial_fetch_state)"
    using earlier by (rule dispatched_fetch_pages)
  then show "dispatched (fetch_events st) = []"
    by (simp add: initial_fetch_state_def)
qed

lemma map_exn_normalize_broken:
  assumes "bad \<in> set its" "item_snippet bad = None \<or> item_id bad = None"
  shows "\<exists>e. map_exn normalize its = Inl e"
  using assms
proof (induction its)
  case Nil
  then show ?case by simp
next
  case (Cons a its)
  show ?case
  proof (cases "normalize a")
    case (Inl e)
    then show ?thesis by simp
  next
    case (Inr v)
    with Cons.prems have "bad \<noteq> a"
      by (auto simp: normalize_def split: option.splits)
    with Cons show ?thesis
      using Inr by (auto split: sum.splits)
  qed
qed

lemma request_with_names:
  "body_userName req = Some u \<Longrightarrow> body_channelName req = Some c \<Longrightarrow> u \<noteq> [] \<Longrightarrow> c \<noteq> [] \<Longrightarrow>
     analyze w req = pipeline w u c"
  by (simp add: analyze_def)

lemma missing_name_rejected:
  "falsy (body_userName req) \<or> falsy (body_channelName req) \<Longrightarrow>
     analyze w req = respond 400 (ErrorBody ''User name and channel name are required'') []"
  by (auto simp: analyze_def falsy_def split: option.splits)

lemma no_videos_found:
  assumes names: "body_userName req = Some u" "body_channelName req = Some c" "u \<noteq> []" "c \<noteq> []"
    and keys: "\<not> falsy (YOUTUBE_API_KEY w)" "\<not> falsy (OPENAI_API_KEY w)"
    and fetched: "fetch_pages (axios_get w) initial_fetch_state = (st, Completed)"
    and none: "allSearchResults st = []"
  shows "analyze w req = respond 404 (ErrorBody ''No videos found for this channel'') (fetch_events st)"
    and "dispatched (effects (analyze w req)) = []"
proof -
  show a: "analyze w req = respond 404 (ErrorBody ''No videos found for this channel'') (fetch_events st)"
    using keys by (simp add: request_with_names [OF names] pipeline_def fetched none)
  have "dispatched (fetch_events st) = dispatched (fetch_events initial_fetch_state)"
    using fetched by (rule dispatched_fetch_pages)
  then show "dispatched (effects (analyze w req)) = []"
    by (simp add: a respond_def initial_fetch_state_def)
qed

section \<open>Claims about the search stage\<close>

text \<open>
  C7, as the code has it. An item whose \<^verbatim>\<open>id\<close> and \<^verbatim>\<open>snippet\<close> sub-objects are present
  is normalised to a record that carries each of their properties as it is, a missing
  property staying empty, and a page of such items is normalised item by item and
  fetched without a failure. A page that holds an item without the \<^verbatim>\<open>snippet\<close> or
  without the \<^verbatim>\<open>id\<close> sub-object cannot be normalised: the normalisation throws, and
  wherever that page comes in the sequence of pages the request is answered with status
  500 and the message of the exception, with no batch dispatched.
\<close>

theorem normalize_tolerates_missing_properties_only:
  assumes names: "body_userName req = Some u" "body_channelName req = Some c" "u \<noteq> []" "c \<noteq> []"
    and keys: "\<not> falsy (YOUTUBE_API_KEY w)" "\<not> falsy (OPENAI_API_KEY w)"
    and earlier: "fetch_pages earlier initial_fetch_state = (st, Awaiting)"
    and pages: "axios_get w = earlier @ Inr pg # later"
    and its: "items pg = Some its"
    and bad: "bad \<in> set its" "item_snippet bad = None \<or> item_id bad = None"
  shows "normalize \<lparr> item_id = Some i, item_snippet = Some sn \<rparr>
     = Inr \<lparr> videoId = id_videoId i, title = snippet_title sn, description = snippet_description sn,
             channelTitle = snippet_channelTitle sn, channelId = snippet_channelId sn,
             publishedAt = snippet_publishedAt sn, thumbnails = snippet_thumbnails sn,
             publishTime = snippet_publishTime sn \<rparr>
   \<and> normalize_page
       \<lparr> items = Some (map (\<lambda>p. \<lparr> item_id = Some (fst p), item_snippet = Some (snd p) \<rparr>) pairs),
         page_nextPageToken = token \<rparr>
     = Inr (map (\<lambda>p. \<lparr> videoId = id_videoId (fst p), title = snippet_title (snd p),
                         description = snippet_description (snd p),
                         channelTitle = snippet_channelTitle (snd p),
                         channelId = snippet_channelId (snd p),
                         publishedAt = snippet_publishedAt (snd p),
                         thumbnails = snippet_thumbnails (snd p),
                         publishTime = snippet_publishTime (snd p) \<rparr>) pairs)
   \<and> fetch_pages
       [Inr \<lparr> items = Some (map (\<lambda>p. \<lparr> item_id = Some (fst p), item_snippet = Some (snd p) \<rparr>) pairs),
              page_nextPageToken = None \<rparr>] initial_fetch_state
     = (\<lparr> allSearchResults =
             map (\<lambda>p. \<lparr> videoId = id_videoId (fst p), title = snippet_title (snd p),
                         description = snippet_description (snd p),
                         channelTitle = snippet_channelTitle (snd p),
                         channelId = snippet_channelId (snd p),
                         publishedAt = snippet_publishedAt (snd p),
                         thumbnails = snippet_thumbnails (snd p),
                         publishTime = snippet_publishTime (snd p) \<rparr>) pairs,
           nextPageToken = None, pageCount = 1, fetch_events = [PageRequest 50 None] \<rparr>, Completed)
   \<and> (\<exists>e. normalize bad = Inl e)
   \<and> (\<exists>e. normalize_page pg = Inl e
          \<and> sent (analyze w req)
              = Some \<lparr> status = 500, body = ErrorBody (''YouTube API error: '' @ e) \<rparr>)
   \<and> dispatched (effects (analyze w req)) = []"
proof -
  have whole: "map_exn normalize (map (\<lambda>p. \<lparr> item_id = Some (fst p), item_snippet = Some (snd p) \<rparr>) ps)
      = Inr (map (\<lambda>p. \<lparr> videoId = id_videoId (fst p), title = snippet_title (snd p),
                         description = snippet_description (snd p),
                         channelTitle = snippet_channelTitle (snd p),
                         channelId = snippet_channelId (snd p),
                         publishedAt = snippet_publishedAt (snd p),
                         thumbnails = snippet_thumbnails (snd p),
                         publishTime = snippet_publishTime (snd p) \<rparr>) ps)"
    for ps :: "(raw_id \<times> raw_snippet) list"
    by (induction ps) (simp_all add: normalize_def)
  have good: "normalize \<lparr> item_id = Some i, item_snippet = Some sn \<rparr>
     = Inr \<lparr> videoId = id_videoId i, title = snippet_title sn, description = snippet_description sn,
             channelTitle = snippet_channelTitle sn, channelId = snippet_channelId sn,
             publishedAt = snippet_publishedAt sn, thumbnails = snippet_thumbnails sn,
             publishTime = snippet_publishTime sn \<rparr>"
    by (simp add: normalize_def)
  have good_page: "normalize_page
       \<lparr> items = Some (map (\<lambda>p. \<lparr> item_id = Some (fst p), item_snippet = Some (snd p) \<rparr>) pairs),
         page_nextPageToken = tok \<rparr>
     = Inr (map (\<lambda>p. \<lparr> videoId = id_videoId (fst p), title = snippet_title (snd p),
                         description = snippet_description (snd p),
                         channelTitle = snippet_channelTitle (snd p),
                         channelId = snippet_channelId (snd p),
                         publishedAt = snippet_publishedAt (snd p),
                         thumbnails = snippet_thumbnails (snd p),
                         publishTime = snippet_publishTime (snd p) \<rparr>) pairs)" for tok
    by (simp add: normalize_page_def whole)
  have fetched: "fetch_pages
       [Inr \<lparr> items = Some (map (\<lambda>p. \<lparr> item_id = Some (fst p), item_snippet = Some (snd p) \<rparr>) pairs),
              page_nextPageToken = None \<rparr>] initial_fetch_state
     = (\<lparr> allSearchResults =
             map (\<lambda>p. \<lparr> videoId = id_videoId (fst p), title = snippet_title (snd p),
                         description = snippet_description (snd p),
                         channelTitle = snippet_channelTitle (snd p),
                         channelId = snippet_channelId (snd p),
                         publishedAt = snippet_publishedAt (snd p),
                         thumbnails = snippet_thumbnails (snd p),
                         publishTime = snippet_publishTime (snd p) \<rparr>) pairs,
           nextPageToken = None, pageCount = 1, fetch_events = [PageRequest 50 None] \<rparr>, Completed)"
    by (simp add: fetch_pages_def request_page_def initial_fetch_state_def good_page falsy_def
        maxResultsPerPage_def targetResults_def)
  have single: "\<exists>e. normalize bad = Inl e"
    using bad(2) by (auto simp: normalize_def split: option.splits)
  obtain e where e: "normalize_page pg = Inl e"
    using map_exn_normalize_broken [OF bad] its by (auto simp: normalize_page_def)
  then have "await_page [Inr pg] st = (st, Threw e)"
    by simp
  from pipeline_throws [OF keys earlier pages this]
  have "sent (analyze w req) = Some \<lparr> status = 500, body = ErrorBody (''YouTube API error: '' @ e) \<rparr>"
    and "dispatched (effects (analyze w req)) = []"
    by (simp_all add: request_with_names [OF names] respond_def)
  then show ?thesis
    using good good_page [of token] fetched single e by blast
qed

theorem normalize_tolerates_missing_properties_only_witness:
  "fetch_pages [page_with_token] initial_fetch_state
     = (\<lparr> allSearchResults = [example_video], nextPageToken = Some ''CAUQAA'', pageCount = 2,
           fetch_events = [PageRequest 50 None, Sleep 500, PageRequest 50 (Some ''CAUQAA'')] \<rparr>, Awaiting)
   \<and> item_without_id \<in> set [example_item, item_without_id]
   \<and> item_id item_without_id = None
   \<and> normalize_page \<lparr> items = Some [example_item, item_without_id], page_nextPageToken = None \<rparr>
     = Inl (TypeError_undefined ''videoId'')
   \<and> sent (analyze
         (example_world
            [page_with_token,
             Inr \<lparr> items = Some [example_item, item_without_id], page_nextPageToken = None \<rparr>]
            every_call_answers) example_request)
     = Some \<lparr> status = 500,
              body = ErrorBody (''YouTube API error: '' @ TypeError_undefined ''videoId'') \<rparr>
   \<and> dispatched (effects (analyze
         (example_world
            [page_with_token,
             Inr \<lparr> items = Some [example_item, item_without_id], page_nextPageToken = None \<rparr>]
            every_call_answers) example_request)) = []"
proof -
  let ?pg = "\<lparr> items = Some [example_item, item_without_id], page_nextPageToken = None \<rparr>"
  let ?w = "example_world [page_with_token, Inr ?pg] every_call_answers"
  have earlier: "fetch_pages [page_with_token] initial_fetch_state
     = (\<lparr> allSearchResults = [example_video], nextPageToken = Some ''CAUQAA'', pageCount = 2,
           fetch_events = [PageRequest 50 None, Sleep 500, PageRequest 50 (Some ''CAUQAA'')] \<rparr>, Awaiting)"
    by code_simp
  have page: "normalize_page ?pg = Inl (TypeError_undefined ''videoId'')"
    by code_simp
  have names: "body_userName example_request = Some ''Artist''"
    "body_channelName example_request = Some ''ArtistOfficial''"
    "''Artist'' \<noteq> []" "''ArtistOfficial'' \<noteq> []"
    by (simp_all add: example_request_def)
  have keys: "\<not> falsy (YOUTUBE_API_KEY ?w)" "\<not> falsy (OPENAI_API_KEY ?w)"
    by (simp_all add: example_world_def falsy_def)
  have pages: "axios_get ?w = [page_with_token] @ Inr ?pg # []"
    by (simp add: example_world_def)
  have its: "items ?pg = Some [example_item, item_without_id]"
    by simp
  have bad: "item_without_id \<in> set [example_item, item_without_id]"
    "item_snippet item_without_id = None \<or> item_id item_without_id = None"
    by (simp_all add: item_without_id_def)
  show ?thesis
    using normalize_tolerates_missing_properties_only [OF names keys earlier pages its bad]
      earlier page
    by (auto simp: item_without_id_def)
qed

text \<open>
  C7 as the specification words it fails: a page whose only item has no \<^verbatim>\<open>snippet\<close>
  sub-object does not yield a record with empty fields; the normalisation throws and
  the request ends with status 500 after the one page request.
\<close>

theorem missing_snippet_counterexample:
  "normalize item_without_snippet = Inl (TypeError_undefined ''title'')
   \<and> analyze (example_world (one_page [item_without_snippet]) every_call_answers) example_request
     = respond 500 (ErrorBody (''YouTube API error: '' @ TypeError_undefined ''title''))
         [PageRequest 50 None]"
  by code_simp

text \<open>
  C10. When a page request fails after any number of pages that were fetched and left
  the loop wanting another page, the request ends with status 500 and a body that holds
  nothing but the message \<^verbatim>\<open>YouTube API error: \<close> followed by the upstream message,
  and no batch has been dispatched.
\<close>

theorem failed_page_aborts_request:
  assumes names: "body_userName req = Some u" "body_channelName req = Some c" "u \<noteq> []" "c \<noteq> []"
    and keys: "\<not> falsy (YOUTUBE_API_KEY w)" "\<not> falsy (OPENAI_API_KEY w)"
    and earlier: "fetch_pages earlier initial_fetch_state = (st, Awaiting)"
    and pages: "axios_get w = earlier @ Inl msg # later"
  shows "sent (analyze w req) = Some \<lparr> status = 500, body = ErrorBody (''YouTube API error: '' @ msg) \<rparr>
       \<and> map_option (\<lambda>r. body_json (body r)) (sent (analyze w req))
           = Some (JObj [(''error'', JStr (''YouTube API error: '' @ msg))])
       \<and> dispatched (effects (analyze w req)) = []"
proof -
  have "await_page [Inl msg] st = (st, Threw msg)"
    by simp
  from pipeline_throws [OF keys earlier pages this]
  show ?thesis
    by (simp add: request_with_names [OF names] respond_def)
qed

theorem failed_page_aborts_request_witness:
  "fetch_pages [page_with_token] initial_fetch_state
     = (\<lparr> allSearchResults = [example_video], nextPageToken = Some ''CAUQAA'', pageCount = 2,
           fetch_events = [PageRequest 50 None, Sleep 500, PageRequest 50 (Some ''CAUQAA'')] \<rparr>, Awaiting)
   \<and> sent (analyze (example_world [page_with_token, Inl ''Request failed with status code 403'']
                      every_call_answers) example_request)
     = Some \<lparr> status = 500,
              body = ErrorBody ''YouTube API error: Request failed with status code 403'' \<rparr>
   \<and> dispatched (effects (analyze (example_world [page_with_token, Inl ''Request failed with status code 403'']
                      every_call_answers) example_request)) = []"
proof -
  let ?w = "example_world [page_with_token, Inl ''Request failed with status code 403''] every_call_answers"
  have earlier: "fetch_pages [page_with_token] initial_fetch_state
     = (\<lparr> allSearchResults = [example_video], nextPageToken = Some ''CAUQAA'', pageCount = 2,
           fetch_events = [PageRequest 50 None, Sleep 500, PageRequest 50 (Some ''CAUQAA'')] \<rparr>, Awaiting)"
    by code_simp
  have names: "body_userName example_request = Some ''Artist''"
    "body_channelName example_request = Some ''ArtistOfficial''"
    "''Artist'' \<noteq> []" "''ArtistOfficial'' \<noteq> []"
    by (simp_all add: example_request_def)
  have keys: "\<not> falsy (YOUTUBE_API_KEY ?w)" "\<not> falsy (OPENAI_API_KEY ?w)"
    by (simp_all add: example_world_def falsy_def)
  have pages: "axios_get ?w = [page_with_token] @ Inl ''Request failed with status code 403'' # []"
    by (simp add: example_world_def)
  show ?thesis
    using failed_page_aborts_request [OF names keys earlier pages] earlier by simp
qed

section \<open>Partial failure with replies of the expected shape\<close>

text \<open>
  Let the search stage succeed with N > 0 videos, and let every batch either fail (the
  call or the parse throws) or yield a reply that parses to an object without a failure
  marker of its own, its ranked entries being objects as the data model has them. Then
  the request is answered with status 200; the report counts
  \<open>\<lceil>N / 10\<rceil>\<close> batches, in \<^verbatim>\<open>batchesAnalyzed\<close> and in \<^verbatim>\<open>batch_count\<close>;
  \<^verbatim>\<open>batchesFailed\<close> and \<^verbatim>\<open>failed_batches\<close> are the number of failed batches; and the
  merged \<^verbatim>\<open>ranked_list\<close> holds exactly the entries of the successful batches' replies.
\<close>

lemma partial_failure_accounting:
  assumes names: "body_userName req = Some u" "body_channelName req = Some c" "u \<noteq> []" "c \<noteq> []"
    and keys: "\<not> falsy (YOUTUBE_API_KEY w)" "\<not> falsy (OPENAI_API_KEY w)"
    and fetched: "fetch_pages (axios_get w) initial_fetch_state = (st, Completed)"
    and some: "allSearchResults st \<noteq> []"
    and ok: "list_all usable (outcomes (completions_create w) (parse_JSON w) (allSearchResults st))"
  shows "\<exists>rep. sent (analyze w req) = Some \<lparr> status = 200, body = ReportBody rep \<rparr>
           \<and> batchesAnalyzed rep = totalBatches_of (length (allSearchResults st))
           \<and> batch_count (analysis rep) = totalBatches_of (length (allSearchResults st))
           \<and> batchesFailed rep
              = length (filter isl (outcomes (completions_create w) (parse_JSON w) (allSearchResults st)))
           \<and> failed_batches (analysis rep)
              = length (filter isl (outcomes (completions_create w) (parse_JSON w) (allSearchResults st)))
           \<and> mset (final_ranked_list (analysis rep))
              = mset (concat (map contributed
                   (outcomes (completions_create w) (parse_JSON w) (allSearchResults st))))"
proof -
  let ?xs = "allSearchResults st"
  let ?t = "totalBatches_of (length ?xs)"
  let ?f = "outcome (completions_create w) (parse_JSON w) ?xs ?t"
  let ?js = "loop_indices (length ?xs) 0"
  let ?bs = "batch_loop (completions_create w) (parse_JSON w) ?xs ?t 0 (initial_batch_state (fetch_events st))"
  have outs: "outcomes (completions_create w) (parse_JSON w) ?xs = map ?f ?js"
    by (simp add: outcomes_def)
  have n: "length ?js = ?t"
    by (simp add: length_loop_indices batches_left_0)
  obtain as where as: "map (\<lambda>j. recorded j (?f j)) ?js = map ParsedObject as"
      "length (filter batch_failed as) = length (filter isl (map ?f ?js))"
      "concat (map (\<lambda>a. or_empty (ranked_list a)) as) = concat (map contributed (map ?f ?js))"
    using recorded_all_usable [of ?f ?js] ok unfolding outs by blast
  have len_as: "length as = ?t"
    using arg_cong [OF as(1), of length] n by simp
  have analyses: "allAnalyses ?bs = map ParsedObject as"
    by (simp add: batch_loop_unfold initial_batch_state_def as(1))
  have failed: "length (failedBatches ?bs) = length (filter isl (map ?f ?js))"
    by (simp add: batch_loop_unfold initial_batch_state_def length_failure_details)
  have "pipeline w u c =
      respond 200
        (ReportBody
           \<lparr> userName = u, query = c, totalVideosFound = length ?xs,
             batchesAnalyzed = length (allAnalyses ?bs), batchesFailed = length (failedBatches ?bs),
             failedBatchDetails = failedBatches ?bs, searchResults = ?xs,
             analysis = projr (combineAnalyses (map ParsedObject as) (length ?xs)) \<rparr>)
        (batch_events ?bs)"
    using keys some
    by (simp add: pipeline_def fetched Let_def analyses combineAnalyses_objects)
  then show ?thesis
    unfolding outs
    by (simp add: request_with_names [OF names] respond_def analyses failed len_as
        combineAnalyses_objects mset_Array_sort as(2) as(3))
qed

lemma partial_failure_example:
  "fetch_pages (one_page (replicate 11 example_item)) initial_fetch_state
     = (\<lparr> allSearchResults = replicate 11 example_video, nextPageToken = None, pageCount = 1,
           fetch_events = [PageRequest 50 None] \<rparr>, Completed)
   \<and> outcomes second_call_answers JSON_parse_examples (replicate 11 example_video)
     = [Inl ''429 Too Many Requests'', Inr (ParsedObject medium_reply)]
   \<and> (\<exists>rep. sent (analyze (example_world (one_page (replicate 11 example_item)) second_call_answers)
                    example_request)
               = Some \<lparr> status = 200, body = ReportBody rep \<rparr>
           \<and> batchesAnalyzed rep = 2 \<and> batch_count (analysis rep) = 2
           \<and> batchesFailed rep = 1 \<and> failed_batches (analysis rep) = 1
           \<and> mset (final_ranked_list (analysis rep))
              = mset (case ranked_list medium_reply of None \<Rightarrow> [] | Some entries \<Rightarrow> entries))"
proof -
  let ?w = "example_world (one_page (replicate 11 example_item)) second_call_answers"
  let ?st = "\<lparr> allSearchResults = replicate 11 example_video, nextPageToken = None, pageCount = 1,
           fetch_events = [PageRequest 50 None] \<rparr>"
  have fetched: "fetch_pages (one_page (replicate 11 example_item)) initial_fetch_state = (?st, Completed)"
    by code_simp
  have outs: "outcomes second_call_answers JSON_parse_examples (replicate 11 example_video)
     = [Inl ''429 Too Many Requests'', Inr (ParsedObject medium_reply)]"
    by code_simp
  have total: "totalBatches_of 11 = 2"
    by (simp add: totalBatches_of_div)
  have names: "body_userName example_request = Some ''Artist''"
    "body_channelName example_request = Some ''ArtistOfficial''"
    "''Artist'' \<noteq> []" "''ArtistOfficial'' \<noteq> []"
    by (simp_all add: example_request_def)
  have keys: "\<not> falsy (YOUTUBE_API_KEY ?w)" "\<not> falsy (OPENAI_API_KEY ?w)"
    by (simp_all add: example_world_def falsy_def)
  have fetched': "fetch_pages (axios_get ?w) initial_fetch_state = (?st, Completed)"
    using fetched by (simp add: example_world_def)
  have some: "allSearchResults ?st \<noteq> []"
    by simp
  have ok: "list_all usable (outcomes (completions_create ?w) (parse_JSON ?w) (allSearchResults ?st))"
    using outs by (simp add: example_world_def medium_reply_def)
  show ?thesis
    using partial_failure_accounting [OF names keys fetched' some ok] fetched outs total
    by (simp add: example_world_def)
qed

section \<open>The two parsers\<close>

text \<open>
  \<^verbatim>\<open>extractJSON\<close> of test.js parses the text directly and, failing that, its part from
  the first opening to the last closing brace; \<^verbatim>\<open>analyzeBatch\<close> of server.js applies
  \<^verbatim>\<open>JSON.parse\<close> to the content and does nothing else.
\<close>

lemma extractJSON_direct:
  "JSON_parse (strip_closing_fence (strip_opening_fence (trim t))) = Inr v \<Longrightarrow>
     extractJSON JSON_parse t = Inr v"
  by (simp add: extractJSON_def)

lemma extractJSON_fallback:
  "JSON_parse (strip_closing_fence (strip_opening_fence (trim t))) = Inl e \<Longrightarrow>
   indexOf (CHR ''{'') (strip_closing_fence (strip_opening_fence (trim t))) = Some a \<Longrightarrow>
   lastIndexOf (CHR ''}'') (strip_closing_fence (strip_opening_fence (trim t))) = Some b \<Longrightarrow>
   a < b \<Longrightarrow>
   JSON_parse (slice a (b + 1) (strip_closing_fence (strip_opening_fence (trim t)))) = Inr v \<Longrightarrow>
     extractJSON JSON_parse t = Inr v"
  by (simp add: extractJSON_def)

lemma analyzeBatch_direct_only:
  "create batch n t = Inr content \<Longrightarrow>
     analyzeBatch create JSON_parse batch n t
       = JSON_parse (case content of None \<Rightarrow> ''null'' | Some text \<Rightarrow> text)"
  by (simp add: analyzeBatch_def)

section \<open>The handler at the inputs where it leaves the specification\<close>

text \<open>
  C1. The search stage succeeds with one video and the text-generation call returns a
  \<^verbatim>\<open>null\<close> content. \<^verbatim>\<open>JSON.parse\<close> turns it into \<^verbatim>\<open>null\<close> without throwing, the batch
  counts as analysed, and \<^verbatim>\<open>combineAnalyses\<close> throws on reading \<^verbatim>\<open>ranked_list\<close> of
  \<^verbatim>\<open>null\<close>: the failure of the one batch leaves the batch loop, and the request ends
  with status 500 instead of 200.
\<close>

theorem null_reply_aborts_request:
  "analyze (example_world (one_page [example_item]) null_content) example_request
     = respond 500
         (ErrorDetailsBody ''An unexpected error occurred during analysis'' (TypeError_null ''ranked_list''))
         [PageRequest 50 None, Dispatch 1 [example_video] 1]"
  by code_simp

text \<open>
  C6. The reply \<^verbatim>\<open>Result: {}\<close> is not JSON as a whole, and its part from the first
  \<^verbatim>\<open>{\<close> to the last \<^verbatim>\<open>}\<close> is. \<^verbatim>\<open>analyzeBatch\<close> of server.js fails on it with the
  error of the direct parse; \<^verbatim>\<open>extractJSON\<close> of test.js returns the object.
\<close>

theorem analyzeBatch_has_no_fallback:
  "analyzeBatch prose_then_object JSON_parse_examples [example_video] 1 1 = Inl ''Unexpected token''
   \<and> extractJSON JSON_parse_examples ''Result: {}'' = Inr (ParsedObject empty_object)"
  by code_simp

text \<open>
  C8. Eleven videos make two batches. When the first call of the text-generation
  endpoint throws, the second batch is dispatched with no pause in between; when the
  first call answers, the pause of 1000 ms stands between the two.
\<close>

theorem no_pause_after_failed_batch:
  "effects (analyze (example_world (one_page (replicate 11 example_item)) first_call_fails) example_request)
     = [PageRequest 50 None, Dispatch 1 (replicate 10 example_video) 2, Dispatch 2 [example_video] 2]
   \<and> effects (analyze (example_world (one_page (replicate 11 example_item)) every_call_answers) example_request)
     = [PageRequest 50 None, Dispatch 1 (replicate 10 example_video) 2, Sleep 1000,
        Dispatch 2 [example_video] 2]"
  by code_simp

text \<open>
  C9. Without a key the handler answers with what \<^verbatim>\<open>generateMockResults\<close> built. That
  object has six keys and its \<^verbatim>\<open>analysis\<close> seven; the report of the pipeline has eight
  and eight: \<^verbatim>\<open>batchesFailed\<close>, \<^verbatim>\<open>failedBatchDetails\<close> and \<^verbatim>\<open>failed_batches\<close> are
  missing from the mock.
\<close>

theorem mock_report_lacks_failure_accounting:
  "pipeline (w \<lparr> YOUTUBE_API_KEY := None \<rparr>) u c
     = respond 200 (MockBody (generateMockResults (Date_now w) (toISOString w) u c)) []
   \<and> object_keys (generateMockResults now toISO u c)
     = [''userName'', ''query'', ''totalVideosFound'', ''batchesAnalyzed'', ''searchResults'', ''analysis'']
   \<and> map_option object_keys (member ''analysis'' (generateMockResults now toISO u c))
     = Some [''summary'', ''ranked_list'', ''top_priority'', ''checklist'', ''next_actions'',
             ''disclaimer'', ''batch_count'']
   \<and> object_keys (Report_json r)
     = [''userName'', ''query'', ''totalVideosFound'', ''batchesAnalyzed'', ''batchesFailed'',
        ''failedBatchDetails'', ''searchResults'', ''analysis'']
   \<and> map_option object_keys (member ''analysis'' (Report_json r))
     = Some [''summary'', ''ranked_list'', ''top_priority'', ''checklist'', ''next_actions'',
             ''disclaimer'', ''batch_count'', ''failed_batches'']"
  by (simp add: pipeline_def falsy_def generateMockResults_def Report_json_def FinalAnalysis_json_def
      Let_def)

end
